theory Spec2Isabelle
  imports Complex_Main
begin

section \<open>JavaScript primitives used by the routes\<close>

text \<open>
  Strings are lists of characters; \<open>s.length\<close> is \<open>length s\<close>, the empty string is the
  only falsy string, \<open>s.startsWith(p)\<close> compares the first \<open>p.length\<close> characters and
  \<open>s.includes(p)\<close> looks for \<open>p\<close> at every position.
\<close>

definition startsWith :: "string \<Rightarrow> string \<Rightarrow> bool" where
  "startsWith s p = (take (length p) s = p)"

fun str_includes :: "string \<Rightarrow> string \<Rightarrow> bool" where
  "str_includes [] p = (p = [])"
| "str_includes (c # s) p = (startsWith (c # s) p \<or> str_includes s p)"

text \<open>
  \<open>Math.round\<close> rounds to the nearest integer, a tie going up. The numbers it is applied
  to here are sums of products of a score (a multiple of ten between \<open>0\<close> and \<open>100\<close>)
  with one of the constants \<open>0.15\<close>, \<open>0.25\<close>, \<open>0.20\<close>; for the scores the analyzer
  produces, each of these products and sums is a multiple of one half and binary64
  arithmetic yields it without rounding error, so the model computes with rationals.
\<close>

definition Math_round :: "rat \<Rightarrow> int" where
  "Math_round x = \<lfloor>x + 1 / 2\<rfloor>"

definition Math_min :: "int \<Rightarrow> int \<Rightarrow> int" where
  "Math_min a b = (if a \<le> b then a else b)"

text \<open>
  The outcome of an \<open>axios\<close> request: it either resolves with the response's data or rejects
  with an error carrying a message (network error, timeout, non-2xx status).
\<close>

datatype 'a fetched = FetchError string | Fetched 'a


section \<open>The local fallback analyzer (\<open>performBasicAnalysis\<close>)\<close>

text \<open>
  What the \<open>cheerio\<close> selectors of \<open>performBasicAnalysis\<close> read off the fetched document:
  the trimmed text of \<open>title\<close>, the \<open>content\<close> attribute of the description and viewport
  \<open>meta\<close> elements (absent when there is no such element), the trimmed texts of the \<open>h1\<close>
  and \<open>h2\<close> elements, the \<open>alt\<close> attribute of every \<open>img\<close>, the \<open>href\<close> of every
  \<open>a[href]\<close>, and the number of non-empty words of the body text.
\<close>

record page =
  title_text :: string
  description_content :: "string option"
  h1_texts :: "string list"
  h2_texts :: "string list"
  img_alts :: "string option list"
  a_hrefs :: "string list"
  body_word_count :: nat
  viewport_content :: "string option"

text \<open>
  The data of a resolved page fetch, as \<open>cheerio.load\<close> takes it: data it loads, with what
  the selectors then read, or data it rejects (a body of \<open>null\<close>, say) by throwing an error
  with a message.
\<close>

datatype document = Unloadable string | Document page

text \<open>\<open>attr(...) || ''\<close>: an absent attribute and an empty one both give the empty string.\<close>

definition or_empty :: "string option \<Rightarrow> string" where
  "or_empty a = (case a of None \<Rightarrow> [] | Some s \<Rightarrow> s)"

record issue =
  issue_type :: string
  category :: string
  message :: string

record scores =
  title :: int
  meta :: int
  content :: int
  technical :: int
  performance :: int
  social :: int

record features =
  f_title :: string
  title_length :: nat
  meta_description :: string
  meta_description_length :: nat
  h1_tags :: "string list"
  h2_tags :: "string list"
  h1_count :: nat
  word_count :: nat
  total_images :: nat
  images_without_alt :: nat
  internal_links :: nat
  external_links :: nat
  is_mobile_friendly :: bool
  f_load_time :: rat

record analysis_data =
  url :: string
  load_time :: rat
  overall_score :: int
  scores :: scores
  features :: features
  issues :: "issue list"
  suggestions :: "string list"
  grade :: string

text \<open>
  The \<open>links.each\<close> loop over the \<open>href\<close>s, carrying the two counters
  \<open>(internalLinks, externalLinks)\<close>.
\<close>

fun count_links :: "string list \<Rightarrow> nat \<times> nat \<Rightarrow> nat \<times> nat" where
  "count_links [] (internalLinks, externalLinks) = (internalLinks, externalLinks)"
| "count_links (href # rest) (internalLinks, externalLinks) =
     (if href \<noteq> [] \<and> startsWith href ''http''
      then count_links rest (internalLinks, externalLinks + 1)
      else count_links rest (internalLinks + 1, externalLinks))"

text \<open>The \<open>images.each\<close> loop; the whitespace that \<open>trim\<close> removes is a parameter.\<close>

definition trim :: "(char \<Rightarrow> bool) \<Rightarrow> string \<Rightarrow> string" where
  "trim ws s = rev (dropWhile ws (rev (dropWhile ws s)))"

fun count_missing_alt :: "(char \<Rightarrow> bool) \<Rightarrow> string option list \<Rightarrow> nat \<Rightarrow> nat" where
  "count_missing_alt ws [] imagesWithoutAlt = imagesWithoutAlt"
| "count_missing_alt ws (alt # rest) imagesWithoutAlt =
     (if or_empty alt = [] \<or> trim ws (or_empty alt) = []
      then count_missing_alt ws rest (imagesWithoutAlt + 1)
      else count_missing_alt ws rest imagesWithoutAlt)"

definition titleScore :: "string \<Rightarrow> int" where
  "titleScore t =
     (if t \<noteq> [] then (if length t \<ge> 30 \<and> length t \<le> 60 then 100 else 60) else 0)"

definition metaScore :: "string \<Rightarrow> int" where
  "metaScore metaDescription =
     (if metaDescription \<noteq> []
      then (if length metaDescription \<ge> 120 \<and> length metaDescription \<le> 160 then 100 else 60)
      else 0)"

definition contentScore :: "string list \<Rightarrow> nat \<Rightarrow> int" where
  "contentScore h1Tags wordCount =
     (if length h1Tags = 1 then 70 else (if length h1Tags > 0 then 50 else 20))
     + (if wordCount \<ge> 300 then 30 else 10)"

definition technicalScore :: "bool \<Rightarrow> int" where
  "technicalScore isMobileFriendly = (if isMobileFriendly then 80 else 40)"

definition performanceScore :: "rat \<Rightarrow> int" where
  "performanceScore loadTime = (if loadTime < 2 then 100 else (if loadTime < 4 then 70 else 40))"

definition overallScore :: "int \<Rightarrow> int \<Rightarrow> int \<Rightarrow> int \<Rightarrow> int \<Rightarrow> int" where
  "overallScore ts ms cs tcs ps =
     Math_round ((of_int ts * (15 / 100)) + (of_int ms * (15 / 100)) + (of_int cs * (25 / 100))
                 + (of_int tcs * (25 / 100)) + (of_int ps * (20 / 100)))"

text \<open>The grade expression of \<open>performBasicAnalysis\<close>.\<close>

definition basic_grade :: "int \<Rightarrow> string" where
  "basic_grade overall =
     (if overall \<ge> 80 then ''A'' else if overall \<ge> 60 then ''B''
      else if overall \<ge> 40 then ''C'' else ''D'')"

text \<open>The grade expression of the route that shows a stored analysis (\<open>GET /:id\<close>).\<close>

definition view_grade :: "int \<Rightarrow> string" where
  "view_grade overall = (if overall \<ge> 80 then ''A'' else if overall \<ge> 60 then ''B'' else ''C'')"

definition missing_title :: issue where
  "missing_title = \<lparr>issue_type = ''critical'', category = ''title'', message = ''Missing page title''\<rparr>"

definition title_too_short :: issue where
  "title_too_short = \<lparr>issue_type = ''warning'', category = ''title'', message = ''Title too short''\<rparr>"

definition title_too_long :: issue where
  "title_too_long = \<lparr>issue_type = ''warning'', category = ''title'', message = ''Title too long''\<rparr>"

definition missing_meta :: issue where
  "missing_meta =
     \<lparr>issue_type = ''critical'', category = ''meta'', message = ''Missing meta description''\<rparr>"

definition missing_h1 :: issue where
  "missing_h1 = \<lparr>issue_type = ''critical'', category = ''content'', message = ''Missing H1 heading''\<rparr>"

definition multiple_h1 :: issue where
  "multiple_h1 = \<lparr>issue_type = ''warning'', category = ''content'', message = ''Multiple H1 tags''\<rparr>"

definition thin_content :: issue where
  "thin_content = \<lparr>issue_type = ''warning'', category = ''content'', message = ''Thin content''\<rparr>"

definition not_mobile_friendly :: issue where
  "not_mobile_friendly =
     \<lparr>issue_type = ''critical'', category = ''technical'', message = ''Not mobile-friendly''\<rparr>"

definition slow_load_time :: issue where
  "slow_load_time =
     \<lparr>issue_type = ''warning'', category = ''performance'', message = ''Slow load time''\<rparr>"

text \<open>
  \<open>generateBasicIssues\<close>: each statement appends at most one issue to the list built so far.
\<close>

definition push_title_issue :: "string \<Rightarrow> issue list \<Rightarrow> issue list" where
  "push_title_issue t is0 =
     (if t = [] then is0 @ [missing_title]
      else if length t < 30 then is0 @ [title_too_short]
      else if length t > 60 then is0 @ [title_too_long]
      else is0)"

definition push_meta_issue :: "string \<Rightarrow> issue list \<Rightarrow> issue list" where
  "push_meta_issue metaDesc is0 = (if metaDesc = [] then is0 @ [missing_meta] else is0)"

definition push_h1_issue :: "string list \<Rightarrow> issue list \<Rightarrow> issue list" where
  "push_h1_issue h1Tags is0 =
     (if length h1Tags = 0 then is0 @ [missing_h1]
      else if length h1Tags > 1 then is0 @ [multiple_h1]
      else is0)"

definition push_thin_issue :: "nat \<Rightarrow> issue list \<Rightarrow> issue list" where
  "push_thin_issue wordCount is0 = (if wordCount < 300 then is0 @ [thin_content] else is0)"

definition push_mobile_issue :: "bool \<Rightarrow> issue list \<Rightarrow> issue list" where
  "push_mobile_issue mobileFriendly is0 =
     (if \<not> mobileFriendly then is0 @ [not_mobile_friendly] else is0)"

definition push_load_issue :: "rat \<Rightarrow> issue list \<Rightarrow> issue list" where
  "push_load_issue loadTime is0 = (if loadTime > 3 then is0 @ [slow_load_time] else is0)"

definition generateBasicIssues ::
  "string \<Rightarrow> string \<Rightarrow> string list \<Rightarrow> nat \<Rightarrow> bool \<Rightarrow> rat \<Rightarrow> issue list" where
  "generateBasicIssues t metaDesc h1Tags wordCount mobileFriendly loadTime =
     push_load_issue loadTime
       (push_mobile_issue mobileFriendly
         (push_thin_issue wordCount
           (push_h1_issue h1Tags
             (push_meta_issue metaDesc
               (push_title_issue t [])))))"

text \<open>
  The analysis of a fetched document. \<open>elapsed\<close> is \<open>Date.now() - startTime\<close> in
  milliseconds and \<open>ws\<close> the whitespace of \<open>trim\<close>.
\<close>

definition analyse_page :: "(char \<Rightarrow> bool) \<Rightarrow> string \<Rightarrow> page \<Rightarrow> nat \<Rightarrow> analysis_data" where
  "analyse_page ws u p elapsed =
     (let loadTime = of_nat elapsed / 1000;
          t = title_text p;
          metaDescription = or_empty (description_content p);
          h1Tags = h1_texts p;
          h2Tags = h2_texts p;
          imagesWithoutAlt = count_missing_alt ws (img_alts p) 0;
          links = count_links (a_hrefs p) (0, 0);
          wordCount = body_word_count p;
          viewportMeta = or_empty (viewport_content p);
          isMobileFriendly = str_includes viewportMeta ''width=device-width'';
          overall = overallScore (titleScore t) (metaScore metaDescription)
                      (contentScore h1Tags wordCount) (technicalScore isMobileFriendly)
                      (performanceScore loadTime)
      in \<lparr>url = u,
          load_time = loadTime,
          overall_score = overall,
          scores = \<lparr>title = titleScore t, meta = metaScore metaDescription,
                     content = contentScore h1Tags wordCount,
                     technical = technicalScore isMobileFriendly,
                     performance = performanceScore loadTime, social = 0\<rparr>,
          features = \<lparr>f_title = t, title_length = length t,
                       meta_description = metaDescription,
                       meta_description_length = length metaDescription,
                       h1_tags = h1Tags, h2_tags = take 5 h2Tags, h1_count = length h1Tags,
                       word_count = wordCount, total_images = length (img_alts p),
                       images_without_alt = imagesWithoutAlt,
                       internal_links = fst links, external_links = snd links,
                       is_mobile_friendly = isMobileFriendly, f_load_time = loadTime\<rparr>,
          issues = generateBasicIssues t metaDescription h1Tags wordCount isMobileFriendly loadTime,
          suggestions = [],
          grade = basic_grade overall\<rparr>)"

text \<open>
  \<open>performBasicAnalysis\<close>: the \<open>axios.get\<close> is \<open>fetch\<close>, which gives the response's data and
  the elapsed milliseconds or rejects; a rejection, and an error thrown by \<open>cheerio.load\<close>,
  leave the function as an exception with the error's message.
\<close>

definition performBasicAnalysis ::
  "(char \<Rightarrow> bool) \<Rightarrow> (string \<Rightarrow> (document \<times> nat) fetched) \<Rightarrow> string
     \<Rightarrow> string + analysis_data" where
  "performBasicAnalysis ws fetch u =
     (case fetch u of
        FetchError msg \<Rightarrow> Inl msg
      | Fetched (Unloadable msg, elapsed) \<Rightarrow> Inl msg
      | Fetched (Document p, elapsed) \<Rightarrow> Inr (analyse_page ws u p elapsed))"


section \<open>The quick-analyze API (\<open>POST /api/analyze\<close>)\<close>

text \<open>\<open>url\<close> gets the scheme \<open>https://\<close> unless it starts with \<open>http://\<close> or \<open>https://\<close>.\<close>

definition normalize_url :: "string \<Rightarrow> string" where
  "normalize_url u =
     (if \<not> startsWith u ''http://'' \<and> \<not> startsWith u ''https://'' then ''https://'' @ u else u)"

definition quick_score :: "string \<Rightarrow> string \<Rightarrow> nat \<Rightarrow> rat \<Rightarrow> int" where
  "quick_score t metaDescription h1Count loadTime =
     (let score = 50;
          score = (if t \<noteq> [] \<and> length t \<ge> 30 \<and> length t \<le> 60 then score + 15 else score);
          score = (if metaDescription \<noteq> [] \<and> length metaDescription \<ge> 120
                      \<and> length metaDescription \<le> 160 then score + 15 else score);
          score = (if h1Count = 1 then score + 10 else score);
          score = (if loadTime < 2 then score + 10 else score)
      in score)"

record quick_result =
  q_url :: string
  q_score :: int
  q_title :: string
  q_metaDescription :: string
  q_h1Count :: nat
  q_loadTime :: rat

datatype api_response = ApiError nat string | ApiResult quick_result

text \<open>
  The handler: \<open>body_url\<close> is \<open>req.body.url\<close> (absent or a string), \<open>fetch\<close> the
  \<open>axios.get\<close> of the page. Only the fetch stands in the inner \<open>try\<close>: an error that
  \<open>cheerio.load\<close> throws reaches the outer \<open>catch\<close>, which answers with status 500. The
  handler touches no table.
\<close>

definition api_analyze ::
  "(string \<Rightarrow> (document \<times> nat) fetched) \<Rightarrow> string option \<Rightarrow> api_response" where
  "api_analyze fetch body_url =
     (if or_empty body_url = [] then ApiError 400 ''URL is required''
      else
        (let normalizedUrl = normalize_url (or_empty body_url) in
         case fetch normalizedUrl of
           FetchError fetchError \<Rightarrow> ApiError 400 ''Could not fetch URL''
         | Fetched (Unloadable error, elapsed) \<Rightarrow> ApiError 500 ''Analysis failed''
         | Fetched (Document p, elapsed) \<Rightarrow>
             (let loadTime = of_nat elapsed / 1000;
                  t = title_text p;
                  metaDescription = or_empty (description_content p);
                  h1Count = length (h1_texts p);
                  score = quick_score t metaDescription h1Count loadTime
              in ApiResult \<lparr>q_url = normalizedUrl, q_score = Math_min score 100, q_title = t,
                            q_metaDescription = metaDescription, q_h1Count = h1Count,
                            q_loadTime = loadTime\<rparr>)))"


section \<open>The tables\<close>

text \<open>
  Rows of \<open>connected_accounts\<close>, \<open>websites\<close>, \<open>seo_edits\<close> and \<open>seo_analyses\<close> with the
  columns the routes read or write, and the ids of the rows of \<open>users\<close>. Ids are values
  of the \<open>INTEGER\<close> key columns, timestamps are clock readings, a nullable column is an
  option, and \<open>status\<close> is the \<open>VARCHAR\<close> the routes compare with and set to \<open>'pending'\<close>,
  \<open>'applied'\<close> and \<open>'cancelled'\<close>. The id of a new row is the value its table's sequence
  hands out, an input of the handler that inserts.
\<close>

record connected_account =
  ca_id :: nat
  ca_user_id :: nat
  provider :: string
  access_token :: "string option"
  account_url :: "string option"

record website =
  w_id :: nat
  w_user_id :: nat
  w_url :: string
  connected_account_id :: "nat option"
  last_analyzed :: "nat option"

record seo_edit =
  e_id :: nat
  e_website_id :: nat
  e_user_id :: nat
  page_url :: "string option"
  field_type :: string
  old_value :: string
  new_value :: string
  status :: string
  applied_at :: "nat option"
  created_at :: nat

record seo_analysis =
  a_id :: nat
  a_website_id :: "nat option"
  a_user_id :: nat
  a_url :: string
  a_overall_score :: int
  a_title_score :: int
  a_meta_score :: int
  a_content_score :: int
  a_technical_score :: int
  a_performance_score :: int
  a_features :: features
  has_sitemap :: bool
  has_robots :: bool
  page_load_time :: rat
  a_issues :: "issue list"
  a_suggestions :: "string list"
  analyzed_at :: nat

record db =
  users :: "nat list"
  connected_accounts :: "connected_account list"
  websites :: "website list"
  seo_edits :: "seo_edit list"
  seo_analyses :: "seo_analysis list"

text \<open>\<open>SELECT * FROM websites WHERE id = $1 AND user_id = $2\<close>, first row.\<close>

definition select_website :: "db \<Rightarrow> nat \<Rightarrow> nat \<Rightarrow> website option" where
  "select_website d websiteId userId =
     find (\<lambda>w. w_id w = websiteId \<and> w_user_id w = userId) (websites d)"

text \<open>\<open>LEFT JOIN connected_accounts ca ON w.connected_account_id = ca.id\<close>.\<close>

definition joined_account :: "db \<Rightarrow> website \<Rightarrow> connected_account option" where
  "joined_account d w =
     (case connected_account_id w of
        None \<Rightarrow> None
      | Some c \<Rightarrow> find (\<lambda>ca. ca_id ca = c) (connected_accounts d))"

text \<open>
  The edit of \<open>/apply/:editId\<close>: the row of \<open>seo_edits\<close> with the id and the user, joined
  with its website (an inner join: no website, no row) and the website's account.
\<close>

definition select_edit ::
  "db \<Rightarrow> nat \<Rightarrow> nat \<Rightarrow> (seo_edit \<times> website \<times> connected_account option) option" where
  "select_edit d editId userId =
     (case find (\<lambda>e. e_id e = editId \<and> e_user_id e = userId) (seo_edits d) of
        None \<Rightarrow> None
      | Some e \<Rightarrow>
          (case find (\<lambda>w. w_id w = e_website_id e) (websites d) of
             None \<Rightarrow> None
           | Some w \<Rightarrow> Some (e, w, joined_account d w)))"

text \<open>
  \<open>UPDATE seo_edits SET status = 'applied', applied_at = CURRENT_TIMESTAMP WHERE id = $1\<close>.
\<close>

definition mark_applied :: "nat \<Rightarrow> nat \<Rightarrow> db \<Rightarrow> db" where
  "mark_applied now editId d =
     d\<lparr>seo_edits :=
         map (\<lambda>e. if e_id e = editId then e\<lparr>status := ''applied'', applied_at := Some now\<rparr> else e)
           (seo_edits d)\<rparr>"

text \<open>
  What the database checks when a row is inserted, and the message of the error it raises
  otherwise: a text value holds no zero byte; a value for a \<open>VARCHAR(n)\<close> column has at
  most \<open>n\<close> characters, or only spaces beyond them, which are cut off; the primary key is
  new; a foreign key names a row of its table.
\<close>

definition text_value :: "string \<Rightarrow> bool" where
  "text_value s = (CHR 0x00 \<notin> set s)"

definition varchar :: "nat \<Rightarrow> string \<Rightarrow> string option" where
  "varchar n s =
     (if length s \<le> n then Some s
      else if list_all (\<lambda>c. c = CHR '' '') (drop n s) then Some (take n s)
      else None)"

definition zero_byte_error :: string where
  "zero_byte_error =
     ''invalid byte sequence for encoding '' @ [CHR 0x22] @ ''UTF8'' @ [CHR 0x22] @ '': 0x00''"

definition duplicate_key_error :: "string \<Rightarrow> string" where
  "duplicate_key_error tbl =
     ''duplicate key value violates unique constraint '' @ [CHR 0x22] @ tbl @ ''_pkey''
       @ [CHR 0x22]"

definition foreign_key_error :: "string \<Rightarrow> string \<Rightarrow> string" where
  "foreign_key_error tbl col =
     ''insert or update on table '' @ [CHR 0x22] @ tbl @ [CHR 0x22]
       @ '' violates foreign key constraint '' @ [CHR 0x22] @ tbl @ ''_'' @ col @ ''_fkey''
       @ [CHR 0x22]"

text \<open>
  \<open>INSERT INTO seo_edits (...) VALUES (..., 'pending') RETURNING *\<close> with the new id
  \<open>newId\<close>: the error the database raises, or the new row and the tables with it.
  \<open>page_url\<close> is a \<open>VARCHAR(500)\<close>, \<open>field_type\<close> a \<open>VARCHAR(50)\<close>, the two values are
  \<open>TEXT\<close>; \<open>website_id\<close> references \<open>websites\<close> and \<open>user_id\<close> references \<open>users\<close>.
\<close>

definition insert_edit ::
  "nat \<Rightarrow> nat \<Rightarrow> nat \<Rightarrow> nat \<Rightarrow> string \<Rightarrow> string \<Rightarrow> string \<Rightarrow> string \<Rightarrow> db
     \<Rightarrow> string + (seo_edit \<times> db)" where
  "insert_edit newId now websiteId userId pageUrl fieldType oldValue newValue d =
     (if \<not> (text_value pageUrl \<and> text_value fieldType \<and> text_value oldValue
              \<and> text_value newValue)
      then Inl zero_byte_error
      else
        (case varchar 500 pageUrl of
           None \<Rightarrow> Inl ''value too long for type character varying(500)''
         | Some storedUrl \<Rightarrow>
             (case varchar 50 fieldType of
                None \<Rightarrow> Inl ''value too long for type character varying(50)''
              | Some storedType \<Rightarrow>
                  if newId \<in> set (map e_id (seo_edits d))
                  then Inl (duplicate_key_error ''seo_edits'')
                  else if websiteId \<notin> set (map w_id (websites d))
                  then Inl (foreign_key_error ''seo_edits'' ''website_id'')
                  else if userId \<notin> set (users d)
                  then Inl (foreign_key_error ''seo_edits'' ''user_id'')
                  else
                    (let e = \<lparr>e_id = newId, e_website_id = websiteId, e_user_id = userId,
                              page_url = Some storedUrl, field_type = storedType,
                              old_value = oldValue, new_value = newValue,
                              status = ''pending'', applied_at = None, created_at = now\<rparr>
                     in Inr (e, d\<lparr>seo_edits := seo_edits d @ [e]\<rparr>)))))"


section \<open>The edit routes (\<open>routes/seo.js\<close>)\<close>

text \<open>
  A handler answers with a redirect after a flash message (type, message, location), with
  a JSON object \<open>{success, message}\<close> or \<open>{success, error}\<close>, or by rendering the result
  page of an analysis.
\<close>

datatype location = ToWebsites | ToSeoEdit nat | ToAnalyze

datatype response =
    Redirect string string location
  | Json bool string
  | RenderResult seo_analysis analysis_data bool

text \<open>
  The body posted to the platform connector (\<open>POST /push\<close>), and what the call gives: a
  rejection, or a response whose data is not an object (so that reading \<open>push_data\<close> off it
  throws), or a response with its optional \<open>push_data.note\<close>.
\<close>

record push_request =
  platform :: "string option"
  account :: "(string \<times> string option) list"
  content_fields :: "(string \<times> string) list"
  target_page_url :: string

datatype push_data = NoData | PushData "string option"

text \<open>
  What a handler of this file leaves behind: its response, the tables, and the connector
  calls it made, in order.
\<close>

record outcome =
  response :: response
  db_after :: db
  pushes :: "push_request list"

text \<open>A nullable column inside a template literal prints as \<open>null\<close>.\<close>

definition template :: "string option \<Rightarrow> string" where
  "template v = (case v of None \<Rightarrow> ''null'' | Some s \<Rightarrow> s)"

text \<open>
  \<open>POST /edit/:websiteId\<close>, the save of a manual edit. An \<open>INSERT\<close> that the database
  refuses reaches the route's \<open>catch\<close>.
\<close>

definition create_edit ::
  "nat \<Rightarrow> nat \<Rightarrow> nat \<Rightarrow> nat \<Rightarrow> string option \<Rightarrow> string \<Rightarrow> string \<Rightarrow> string \<Rightarrow> db
     \<Rightarrow> outcome" where
  "create_edit newId now userId websiteId bodyPageUrl fieldType oldValue newValue d =
     (case select_website d websiteId userId of
        None \<Rightarrow>
          \<lparr>response = Redirect ''error'' ''Website not found'' ToWebsites, db_after = d, pushes = []\<rparr>
      | Some w \<Rightarrow>
          (let pageUrl = (if or_empty bodyPageUrl \<noteq> [] then or_empty bodyPageUrl else w_url w)
           in case insert_edit newId now websiteId userId pageUrl fieldType oldValue newValue d of
                Inl error \<Rightarrow>
                  \<lparr>response = Redirect ''error'' ''Error saving SEO change'' (ToSeoEdit websiteId),
                   db_after = d, pushes = []\<rparr>
              | Inr (e, d1) \<Rightarrow>
                  \<lparr>response =
                     Redirect ''success''
                       (''SEO change saved! Click '' @ [CHR 0x22] @ ''Apply'' @ [CHR 0x22]
                          @ '' to push to your site.'')
                       (ToSeoEdit websiteId),
                   db_after = d1, pushes = []\<rparr>))"

text \<open>\<open>POST /apply/:editId\<close>.\<close>

definition push_content :: "seo_edit \<Rightarrow> (string \<times> string) list" where
  "push_content e =
     (if field_type e = ''title'' then [(''title'', new_value e)]
      else if field_type e = ''meta_description'' then [(''meta_description'', new_value e)]
      else [(field_type e, new_value e)])"

definition apply_request :: "seo_edit \<Rightarrow> website \<Rightarrow> connected_account option \<Rightarrow> push_request" where
  "apply_request e w ca =
     \<lparr>platform = map_option provider ca,
      account = [(''access_token'', Option.bind ca access_token),
                 (''site_url'', Option.bind ca account_url),
                 (''store_url'', Option.bind ca account_url),
                 (''repo'', Option.bind ca account_url)],
      content_fields = push_content e,
      target_page_url = (if or_empty (page_url e) \<noteq> [] then or_empty (page_url e) else w_url w)\<rparr>"

definition demo_message :: "string option \<Rightarrow> string" where
  "demo_message prov =
     ''SEO change marked as applied (Demo mode - actual API integration required for ''
       @ template prov @ '')''"

definition apply_edit ::
  "(push_request \<Rightarrow> push_data fetched) \<Rightarrow> nat \<Rightarrow> nat \<Rightarrow> nat \<Rightarrow> db \<Rightarrow> outcome" where
  "apply_edit push now userId editId d =
     (case select_edit d editId userId of
        None \<Rightarrow>
          \<lparr>response = Redirect ''error'' ''Edit not found'' ToWebsites, db_after = d, pushes = []\<rparr>
      | Some (e, w, ca) \<Rightarrow>
          if connected_account_id w = None \<or> connected_account_id w = Some 0
          then \<lparr>response =
                  Redirect ''error''
                    ''No platform connected. Connect a platform first to push changes.''
                    (ToSeoEdit (e_website_id e)),
                db_after = d, pushes = []\<rparr>
          else
            (let req = apply_request e w ca;
                 prov = map_option provider ca
             in case push req of
                  Fetched (PushData note) \<Rightarrow>
                    \<lparr>response =
                       Redirect ''success''
                         (''SEO change applied to '' @ template prov @ ''! '' @ or_empty note)
                         (ToSeoEdit (e_website_id e)),
                     db_after = mark_applied now editId d, pushes = [req]\<rparr>
                | Fetched NoData \<Rightarrow>
                    \<lparr>response = Redirect ''success'' (demo_message prov) (ToSeoEdit (e_website_id e)),
                     db_after = mark_applied now editId (mark_applied now editId d),
                     pushes = [req]\<rparr>
                | FetchError pushError \<Rightarrow>
                    \<lparr>response = Redirect ''success'' (demo_message prov) (ToSeoEdit (e_website_id e)),
                     db_after = mark_applied now editId d, pushes = [req]\<rparr>))"

text \<open>
  \<open>POST /apply-ai/:websiteId\<close>, the direct application of a suggestion. An \<open>INSERT\<close> that
  the database refuses reaches the route's \<open>catch\<close>, which answers with the error's message
  before any push.
\<close>

definition ai_request ::
  "website \<Rightarrow> connected_account option \<Rightarrow> string \<Rightarrow> string \<Rightarrow> push_request" where
  "ai_request w ca suggestionType suggestionContent =
     \<lparr>platform = map_option provider ca,
      account = [(''access_token'', Option.bind ca access_token),
                 (''site_url'', Option.bind ca account_url)],
      content_fields =
        (if suggestionType = ''title'' then [(''title'', suggestionContent)]
         else if suggestionType = ''meta_description''
           then [(''meta_description'', suggestionContent)]
         else []),
      target_page_url = w_url w\<rparr>"

definition apply_ai ::
  "(push_request \<Rightarrow> push_data fetched) \<Rightarrow> nat \<Rightarrow> nat \<Rightarrow> nat \<Rightarrow> nat \<Rightarrow> string \<Rightarrow> string \<Rightarrow> db
     \<Rightarrow> outcome" where
  "apply_ai push newId now userId websiteId suggestionType suggestionContent d =
     (case select_website d websiteId userId of
        None \<Rightarrow> \<lparr>response = Json False ''Website not found'', db_after = d, pushes = []\<rparr>
      | Some w \<Rightarrow>
          (case insert_edit newId now websiteId userId (w_url w) suggestionType []
                  suggestionContent d of
             Inl error \<Rightarrow> \<lparr>response = Json False error, db_after = d, pushes = []\<rparr>
           | Inr (e, d1) \<Rightarrow>
               (let ca = joined_account d w;
                    saved =
                      Json True ''AI suggestion saved. Connect a platform to push to your site.''
                in if or_empty (map_option provider ca) \<noteq> []
                   then
                     (let req = ai_request w ca suggestionType suggestionContent
                      in case push req of
                           Fetched body \<Rightarrow>
                             \<lparr>response =
                                Json True (''AI suggestion applied to ''
                                             @ template (map_option provider ca) @ ''!''),
                              db_after = mark_applied now (e_id e) d1, pushes = [req]\<rparr>
                         | FetchError pushErr \<Rightarrow>
                             \<lparr>response = saved, db_after = d1, pushes = [req]\<rparr>)
                   else \<lparr>response = saved, db_after = d1, pushes = []\<rparr>)))"

text \<open>
  \<open>POST /cancel/:editId\<close>:
  \<open>UPDATE seo_edits SET status = 'cancelled' WHERE id = $1 AND user_id = $2 AND status = 'pending'
  RETURNING website_id\<close>, and the answer chosen by the number of rows returned.
\<close>

definition cancellable :: "nat \<Rightarrow> nat \<Rightarrow> seo_edit \<Rightarrow> bool" where
  "cancellable editId userId e = (e_id e = editId \<and> e_user_id e = userId \<and> status e = ''pending'')"

definition cancel_edit :: "nat \<Rightarrow> nat \<Rightarrow> db \<Rightarrow> outcome" where
  "cancel_edit userId editId d =
     (let rows = filter (cancellable editId userId) (seo_edits d);
          d1 = d\<lparr>seo_edits :=
                  map (\<lambda>e. if cancellable editId userId e then e\<lparr>status := ''cancelled''\<rparr> else e)
                    (seo_edits d)\<rparr>
      in case rows of
           r # rest \<Rightarrow>
             \<lparr>response = Redirect ''success'' ''Edit cancelled'' (ToSeoEdit (e_website_id r)),
              db_after = d1, pushes = []\<rparr>
         | [] \<Rightarrow>
             \<lparr>response = Redirect ''error'' ''Edit not found or already processed'' ToWebsites,
              db_after = d1, pushes = []\<rparr>)"


section \<open>The analysis route (\<open>POST /analyze\<close>)\<close>

text \<open>
  \<open>ml\<close> is the request to the analysis backend and \<open>fetch\<close> the page fetch of the fallback.
  The backend's data has the shape of the fallback's (every field present), so each
  \<open>|| 0\<close>, \<open>|| ''\<close> and \<open>|| []\<close> default of the route returns the field itself. An exception
  of \<open>performBasicAnalysis\<close>, and an \<open>INSERT\<close> that the database refuses, reach the route's
  \<open>catch\<close>.
\<close>

text \<open>
  \<open>INSERT INTO seo_analyses (...) VALUES ($1, ..., $24) RETURNING *\<close> with the new id
  \<open>newId\<close>: the error the database raises, or the new row and the tables with it. \<open>url\<close> is
  a \<open>VARCHAR(500)\<close>, \<open>title\<close> and \<open>meta_description\<close> are \<open>TEXT\<close>; the heading lists, the
  issues and the suggestions are \<open>JSONB\<close>, which refuses the escape that \<open>JSON.stringify\<close>
  writes for a zero character; \<open>website_id\<close> references \<open>websites\<close> and \<open>user_id\<close>
  references \<open>users\<close>.
\<close>

definition jsonb_value :: "string list \<Rightarrow> bool" where
  "jsonb_value xs = list_all text_value xs"

definition issue_strings :: "issue list \<Rightarrow> string list" where
  "issue_strings xs = concat (map (\<lambda>i. [issue_type i, category i, message i]) xs)"

definition insert_analysis ::
  "nat \<Rightarrow> nat \<Rightarrow> nat \<Rightarrow> nat option \<Rightarrow> string \<Rightarrow> analysis_data \<Rightarrow> db
     \<Rightarrow> string + (seo_analysis \<times> db)" where
  "insert_analysis newId now userId websiteId normalizedUrl analysisData d =
     (if \<not> (text_value normalizedUrl \<and> text_value (f_title (features analysisData))
              \<and> text_value (meta_description (features analysisData)))
      then Inl zero_byte_error
      else if \<not> (jsonb_value (h1_tags (features analysisData))
                   \<and> jsonb_value (h2_tags (features analysisData))
                   \<and> jsonb_value (issue_strings (issues analysisData))
                   \<and> jsonb_value (suggestions analysisData))
      then Inl ''unsupported Unicode escape sequence''
      else
        (case varchar 500 normalizedUrl of
           None \<Rightarrow> Inl ''value too long for type character varying(500)''
         | Some storedUrl \<Rightarrow>
             if newId \<in> set (map a_id (seo_analyses d))
             then Inl (duplicate_key_error ''seo_analyses'')
             else if (case websiteId of None \<Rightarrow> False
                      | Some wid \<Rightarrow> wid \<notin> set (map w_id (websites d)))
             then Inl (foreign_key_error ''seo_analyses'' ''website_id'')
             else if userId \<notin> set (users d)
             then Inl (foreign_key_error ''seo_analyses'' ''user_id'')
             else
               (let row =
                      \<lparr>a_id = newId, a_website_id = websiteId, a_user_id = userId,
                       a_url = storedUrl, a_overall_score = overall_score analysisData,
                       a_title_score = title (scores analysisData),
                       a_meta_score = meta (scores analysisData),
                       a_content_score = content (scores analysisData),
                       a_technical_score = technical (scores analysisData),
                       a_performance_score = performance (scores analysisData),
                       a_features = features analysisData, has_sitemap = False,
                       has_robots = False, page_load_time = load_time analysisData,
                       a_issues = issues analysisData,
                       a_suggestions = suggestions analysisData, analyzed_at = now\<rparr>
                in Inr (row, d\<lparr>seo_analyses := seo_analyses d @ [row]\<rparr>))))"

definition analyze_post ::
  "(char \<Rightarrow> bool) \<Rightarrow> (string \<Rightarrow> analysis_data fetched) \<Rightarrow> (string \<Rightarrow> (document \<times> nat) fetched)
     \<Rightarrow> nat \<Rightarrow> nat \<Rightarrow> nat \<Rightarrow> string option \<Rightarrow> nat option \<Rightarrow> db \<Rightarrow> response \<times> db" where
  "analyze_post ws ml fetch newId now userId bodyUrl websiteId d =
     (if or_empty bodyUrl = []
      then (Redirect ''error'' ''Please provide a URL to analyze'' ToAnalyze, d)
      else
        (let normalizedUrl = normalize_url (or_empty bodyUrl);
             analysis =
               (case ml normalizedUrl of
                  Fetched mlData \<Rightarrow> Inr (mlData, True)
                | FetchError mlError \<Rightarrow>
                    (case performBasicAnalysis ws fetch normalizedUrl of
                       Inl msg \<Rightarrow> Inl msg
                     | Inr basic \<Rightarrow> Inr (basic, False)))
         in case analysis of
              Inl msg \<Rightarrow>
                (Redirect ''error'' (''An error occurred during analysis: '' @ msg) ToAnalyze, d)
            | Inr (analysisData, useMLService) \<Rightarrow>
                (case insert_analysis newId now userId websiteId normalizedUrl analysisData d of
                   Inl msg \<Rightarrow>
                     (Redirect ''error'' (''An error occurred during analysis: '' @ msg)
                        ToAnalyze, d)
                 | Inr (row, d1) \<Rightarrow>
                     (let d2 = (case websiteId of
                                  None \<Rightarrow> d1
                                | Some wid \<Rightarrow>
                                    d1\<lparr>websites :=
                                         map (\<lambda>w. if w_id w = wid
                                                  then w\<lparr>last_analyzed := Some now\<rparr> else w)
                                           (websites d1)\<rparr>)
                      in (RenderResult row analysisData useMLService, d2)))))"


section \<open>Notions the properties are stated with\<close>

text \<open>
  The order of an issue list: by category in the order title, meta, content, technical,
  performance, and by severity inside a category, critical before warning before info.
\<close>

definition category_rank :: "string \<Rightarrow> nat" where
  "category_rank c =
     (if c = ''title'' then 0 else if c = ''meta'' then 1 else if c = ''content'' then 2
      else if c = ''technical'' then 3 else if c = ''performance'' then 4 else 5)"

definition severity_rank :: "string \<Rightarrow> nat" where
  "severity_rank t = (if t = ''critical'' then 0 else if t = ''warning'' then 1 else 2)"

definition issue_before :: "issue \<Rightarrow> issue \<Rightarrow> bool" where
  "issue_before a b =
     (category_rank (category a) < category_rank (category b)
      \<or> (category_rank (category a) = category_rank (category b)
          \<and> severity_rank (issue_type a) \<le> severity_rank (issue_type b)))"

text \<open>\<open>a\<close> stands in the list before the first \<open>b\<close>.\<close>

definition ranked_before :: "issue \<Rightarrow> issue \<Rightarrow> issue list \<Rightarrow> bool" where
  "ranked_before a b xs = (a \<in> set (takeWhile (\<lambda>x. x \<noteq> b) xs) \<and> b \<in> set xs)"

text \<open>
  The spec's notion of an external link, "begins with an absolute scheme", read as the
  scheme of a URI reference: a letter, then letters, digits, \<open>+\<close>, \<open>-\<close> or \<open>.\<close>, then a
  colon. The source has no such test; this is what the link counter is compared with.
\<close>

definition scheme_start :: "char \<Rightarrow> bool" where
  "scheme_start c = (c \<in> set ''abcdefghijklmnopqrstuvwxyzABCDEFGHIJKLMNOPQRSTUVWXYZ'')"

definition scheme_char :: "char \<Rightarrow> bool" where
  "scheme_char c = (scheme_start c \<or> c \<in> set ''0123456789+-.'')"

fun scheme_then_colon :: "string \<Rightarrow> bool" where
  "scheme_then_colon [] = False"
| "scheme_then_colon (c # cs) = (c = CHR '':'' \<or> (scheme_char c \<and> scheme_then_colon cs))"

definition begins_with_absolute_scheme :: "string \<Rightarrow> bool" where
  "begins_with_absolute_scheme href =
     (case href of [] \<Rightarrow> False | c # cs \<Rightarrow> scheme_start c \<and> scheme_then_colon cs)"

text \<open>
  The spec's overall score for six weights: the sum of category times weight over the six
  categories, rounded to the nearest integer. This is what the analyzer's overall score
  is compared with.
\<close>

definition weighted_overall :: "rat \<Rightarrow> rat \<Rightarrow> rat \<Rightarrow> rat \<Rightarrow> rat \<Rightarrow> rat \<Rightarrow> scores \<Rightarrow> int" where
  "weighted_overall wTitle wMeta wContent wTechnical wPerformance wSocial sc =
     Math_round (of_int (title sc) * wTitle + of_int (meta sc) * wMeta
                 + of_int (content sc) * wContent + of_int (technical sc) * wTechnical
                 + of_int (performance sc) * wPerformance + of_int (social sc) * wSocial)"

text \<open>The first row of \<open>seo_edits\<close> with an id.\<close>

definition edit_by_id :: "db \<Rightarrow> nat \<Rightarrow> seo_edit option" where
  "edit_by_id d editId = find (\<lambda>e. e_id e = editId) (seo_edits d)"


section \<open>Sample data\<close>

text \<open>
  One user with a website connected to a WordPress account and a website with no account,
  no edits and no analyses yet; a connector, a backend and a page fetch that are down, and
  a fetch that resolves with data \<open>cheerio\<close> cannot load; a
  page with the title \<open>Home\<close>, no description and no heading, and a page that follows the
  rules of the analyzer; the tables after user 1 saved an edit of the title for the
  connected website, and for the website with no account.
\<close>

definition wp_account :: connected_account where
  "wp_account =
     \<lparr>ca_id = 1, ca_user_id = 1, provider = ''wordpress'', access_token = Some ''demo-token'',
      account_url = Some ''https://blog.example.com''\<rparr>"

definition connected_site :: website where
  "connected_site =
     \<lparr>w_id = 1, w_user_id = 1, w_url = ''https://blog.example.com'',
      connected_account_id = Some 1, last_analyzed = None\<rparr>"

definition bare_site :: website where
  "bare_site =
     \<lparr>w_id = 2, w_user_id = 1, w_url = ''https://shop.example.com'',
      connected_account_id = None, last_analyzed = None\<rparr>"

definition db0 :: db where
  "db0 =
     \<lparr>users = [1], connected_accounts = [wp_account], websites = [connected_site, bare_site],
      seo_edits = [], seo_analyses = []\<rparr>"

definition push_down :: "push_request \<Rightarrow> push_data fetched" where
  "push_down req = FetchError ''connect ECONNREFUSED 127.0.0.1:5000''"

definition ml_down :: "string \<Rightarrow> analysis_data fetched" where
  "ml_down u = FetchError ''connect ECONNREFUSED 127.0.0.1:5000''"

definition fetch_down :: "string \<Rightarrow> (document \<times> nat) fetched" where
  "fetch_down u = FetchError ''timeout of 15000ms exceeded''"

definition blank :: "char \<Rightarrow> bool" where
  "blank c = (c = CHR '' '' \<or> c = CHR 0x09 \<or> c = CHR 0x0A \<or> c = CHR 0x0D)"

definition home_page :: page where
  "home_page =
     \<lparr>title_text = ''Home'', description_content = None, h1_texts = [],
      h2_texts = [], img_alts = [], a_hrefs = [''/about'', ''https://example.org/''],
      body_word_count = 500,
      viewport_content = Some ''width=device-width, initial-scale=1''\<rparr>"

definition good_page :: page where
  "good_page =
     \<lparr>title_text = ''Handmade oak furniture built to order in Yorkshire'',
      description_content =
        Some (''Solid oak tables, chairs and shelving made to measure in our Yorkshire ''
              @ ''workshop, delivered across the UK with a ten year guarantee.''),
      h1_texts = [''Handmade oak furniture''], h2_texts = [''Tables'', ''Chairs''],
      img_alts = [Some ''Oak table'', Some ''  '', None],
      a_hrefs = [''/tables'', ''https://example.org/oak'', ''mailto:hello@example.com''],
      body_word_count = 500,
      viewport_content = Some ''width=device-width, initial-scale=1''\<rparr>"

definition fetch_good :: "string \<Rightarrow> (document \<times> nat) fetched" where
  "fetch_good u = Fetched (Document good_page, 1200)"

definition fetch_home :: "string \<Rightarrow> (document \<times> nat) fetched" where
  "fetch_home u = Fetched (Document home_page, 1200)"

definition fetch_null :: "string \<Rightarrow> (document \<times> nat) fetched" where
  "fetch_null u =
     Fetched (Unloadable ''cheerio.load() expects a string'', 300)"


definition db_saved :: db where
  "db_saved = db_after (create_edit 1 10 1 1 None ''title'' ''Home'' ''Handmade oak furniture'' db0)"

definition db_saved_bare :: db where
  "db_saved_bare =
     db_after (create_edit 1 10 1 2 None ''title'' ''Home'' ''Handmade oak furniture'' db0)"

definition saved_edit :: "nat \<Rightarrow> string \<Rightarrow> seo_edit" where
  "saved_edit websiteId pageUrl =
     \<lparr>e_id = 1, e_website_id = websiteId, e_user_id = 1, page_url = Some pageUrl,
      field_type = ''title'', old_value = ''Home'', new_value = ''Handmade oak furniture'',
      status = ''pending'', applied_at = None, created_at = 10\<rparr>"


section \<open>Auxiliary facts\<close>

lemma startsWith_http: "startsWith h ''http'' = (take 4 h = ''http'')"
proof -
  have "length ''http'' = 4" by simp
  then show ?thesis unfolding startsWith_def by presburger
qed

lemma score_ranges:
  "0 \<le> titleScore t \<and> titleScore t \<le> 100"
  "0 \<le> metaScore m \<and> metaScore m \<le> 100"
  "0 \<le> contentScore h wc \<and> contentScore h wc \<le> 100"
  "0 \<le> technicalScore mf \<and> technicalScore mf \<le> 100"
  "0 \<le> performanceScore lt \<and> performanceScore lt \<le> 100"
  by (simp_all add: titleScore_def metaScore_def contentScore_def technicalScore_def
        performanceScore_def)

lemma scores_analyse_page:
  "scores (analyse_page ws u p el) =
     \<lparr>title = titleScore (title_text p), meta = metaScore (or_empty (description_content p)),
      content = contentScore (h1_texts p) (body_word_count p),
      technical = technicalScore
                    (str_includes (or_empty (viewport_content p)) ''width=device-width''),
      performance = performanceScore (of_nat el / 1000), social = 0\<rparr>"
  by (simp add: analyse_page_def Let_def)

lemma overall_analyse_page:
  "overall_score (analyse_page ws u p el) =
     overallScore (titleScore (title_text p)) (metaScore (or_empty (description_content p)))
       (contentScore (h1_texts p) (body_word_count p))
       (technicalScore (str_includes (or_empty (viewport_content p)) ''width=device-width''))
       (performanceScore (of_nat el / 1000))"
  by (simp add: analyse_page_def Let_def)

lemma issue_fields:
  "category missing_title = ''title''" "category title_too_short = ''title''"
  "category title_too_long = ''title''" "category missing_meta = ''meta''"
  "category missing_h1 = ''content''" "category multiple_h1 = ''content''"
  "category thin_content = ''content''" "category not_mobile_friendly = ''technical''"
  "category slow_load_time = ''performance''"
  "issue_type missing_title = ''critical''" "issue_type title_too_short = ''warning''"
  "issue_type title_too_long = ''warning''" "issue_type missing_meta = ''critical''"
  "issue_type missing_h1 = ''critical''" "issue_type multiple_h1 = ''warning''"
  "issue_type thin_content = ''warning''" "issue_type not_mobile_friendly = ''critical''"
  "issue_type slow_load_time = ''warning''"
  by (simp_all add: missing_title_def title_too_short_def title_too_long_def missing_meta_def
        missing_h1_def multiple_h1_def thin_content_def not_mobile_friendly_def
        slow_load_time_def)

lemmas push_issue_defs =
  generateBasicIssues_def push_title_issue_def push_meta_issue_def push_h1_issue_def
  push_thin_issue_def push_mobile_issue_def push_load_issue_def

lemma select_edit_SomeD:
  assumes "select_edit d editId userId = Some (e, w, ca)"
  shows "e \<in> set (seo_edits d) \<and> e_id e = editId \<and> e_user_id e = userId
           \<and> ca = joined_account d w"
proof -
  from assms have f: "find (\<lambda>e. e_id e = editId \<and> e_user_id e = userId) (seo_edits d) = Some e"
    by (auto simp: select_edit_def split: option.splits)
  from assms f have "ca = joined_account d w"
    by (auto simp: select_edit_def split: option.splits)
  moreover from f have "e \<in> set (seo_edits d) \<and> e_id e = editId \<and> e_user_id e = userId"
    by (auto simp: find_Some_iff)
  ultimately show ?thesis by simp
qed

lemma mark_applied_edits:
  "seo_edits (mark_applied now editId d) =
     map (\<lambda>e. if e_id e = editId then e\<lparr>status := ''applied'', applied_at := Some now\<rparr> else e)
       (seo_edits d)"
  by (simp add: mark_applied_def)

lemma mark_applied_member:
  assumes "e \<in> set (seo_edits d)" "e_id e = editId"
  shows "e\<lparr>status := ''applied'', applied_at := Some now\<rparr>
           \<in> set (seo_edits (mark_applied now editId d))"
proof -
  let ?f = "\<lambda>e. if e_id e = editId then e\<lparr>status := ''applied'', applied_at := Some now\<rparr> else e"
  have "?f e \<in> ?f ` set (seo_edits d)" using assms(1) by (rule imageI)
  then show ?thesis using assms(2) by (simp add: mark_applied_edits)
qed

lemma mark_applied_all:
  assumes "x \<in> set (seo_edits (mark_applied now editId d))" "e_id x = editId"
  shows "status x = ''applied'' \<and> applied_at x = Some now"
proof -
  from assms(1) have
    "x \<in> (\<lambda>e. if e_id e = editId then e\<lparr>status := ''applied'', applied_at := Some now\<rparr> else e)
          ` set (seo_edits d)"
    unfolding mark_applied_edits by (simp only: set_map)
  then obtain y where
    x: "x = (if e_id y = editId then y\<lparr>status := ''applied'', applied_at := Some now\<rparr> else y)"
    by (rule imageE)
  show ?thesis
  proof (cases "e_id y = editId")
    case True
    then show ?thesis using x by simp
  next
    case False
    then show ?thesis using x assms(2) by simp
  qed
qed

lemma apply_edit_failed:
  assumes "select_edit d editId userId = Some (e, w, ca)" "connected_account_id w = Some c"
    "c \<noteq> 0" "push (apply_request e w ca) = FetchError msg"
  shows "apply_edit push now userId editId d =
           \<lparr>response = Redirect ''success'' (demo_message (map_option provider ca))
                         (ToSeoEdit (e_website_id e)),
            db_after = mark_applied now editId d, pushes = [apply_request e w ca]\<rparr>"
  using assms by (simp add: apply_edit_def Let_def)

lemma select_website_SomeD:
  assumes "select_website d websiteId userId = Some w"
  shows "w \<in> set (websites d) \<and> w_id w = websiteId \<and> w_user_id w = userId"
  using assms by (auto simp: select_website_def find_Some_iff)

lemma varchar_fits: "length s \<le> n \<Longrightarrow> varchar n s = Some s"
  by (simp add: varchar_def)

lemma insert_edit_accepted:
  assumes "text_value pageUrl" "text_value fieldType" "text_value oldValue" "text_value newValue"
    and "length pageUrl \<le> 500" "length fieldType \<le> 50"
    and "newId \<notin> set (map e_id (seo_edits d))"
    and "websiteId \<in> set (map w_id (websites d))" "userId \<in> set (users d)"
  shows "insert_edit newId now websiteId userId pageUrl fieldType oldValue newValue d =
           Inr (\<lparr>e_id = newId, e_website_id = websiteId, e_user_id = userId,
                 page_url = Some pageUrl, field_type = fieldType, old_value = oldValue,
                 new_value = newValue, status = ''pending'', applied_at = None,
                 created_at = now\<rparr>,
                d\<lparr>seo_edits := seo_edits d
                     @ [\<lparr>e_id = newId, e_website_id = websiteId, e_user_id = userId,
                         page_url = Some pageUrl, field_type = fieldType, old_value = oldValue,
                         new_value = newValue, status = ''pending'', applied_at = None,
                         created_at = now\<rparr>]\<rparr>)"
  using assms by (simp add: insert_edit_def varchar_fits Let_def)

lemma apply_ai_failed:
  assumes "select_website d websiteId userId = Some w" "joined_account d w = Some a"
    "provider a \<noteq> []"
    "push (ai_request w (Some a) suggestionType suggestionContent) = FetchError msg"
    "insert_edit newId now websiteId userId (w_url w) suggestionType [] suggestionContent d
       = Inr (e, d1)"
  shows "apply_ai push newId now userId websiteId suggestionType suggestionContent d =
           \<lparr>response = Json True ''AI suggestion saved. Connect a platform to push to your site.'',
            db_after = d1,
            pushes = [ai_request w (Some a) suggestionType suggestionContent]\<rparr>"
  using assms by (simp add: apply_ai_def Let_def or_empty_def)

lemma filter_eq_single: "distinct xs \<Longrightarrow> e \<in> set xs \<Longrightarrow> filter (\<lambda>x. x = e) xs = [e]"
  by (induction xs) (auto simp: filter_empty_conv)

lemma distinct_id_unique:
  assumes "distinct (map e_id xs)" "e \<in> set xs" "x \<in> set xs" "e_id x = e_id e"
  shows "x = e"
  using assms by (meson distinct_map inj_onD)

lemma cancel_edit_edits:
  "seo_edits (db_after (cancel_edit userId editId d)) =
     map (\<lambda>e. if cancellable editId userId e then e\<lparr>status := ''cancelled''\<rparr> else e)
       (seo_edits d)"
  by (simp add: cancel_edit_def Let_def split: list.splits)

lemma cancel_none:
  assumes "\<forall>x \<in> set (seo_edits d). \<not> cancellable editId userId x"
  shows "cancel_edit userId editId d =
           \<lparr>response = Redirect ''error'' ''Edit not found or already processed'' ToWebsites,
            db_after = d, pushes = []\<rparr>"
proof -
  have f: "filter (cancellable editId userId) (seo_edits d) = []"
    using assms by (simp add: filter_empty_conv)
  have m: "map (\<lambda>e. if cancellable editId userId e then e\<lparr>status := ''cancelled''\<rparr> else e)
             (seo_edits d) = seo_edits d"
    using assms by (simp add: map_idI)
  show ?thesis by (simp add: cancel_edit_def Let_def f m)
qed

lemma cancel_after_none:
  "\<forall>x \<in> set (seo_edits (db_after (cancel_edit userId editId d))). \<not> cancellable editId userId x"
proof
  fix x assume "x \<in> set (seo_edits (db_after (cancel_edit userId editId d)))"
  then have "x \<in> (\<lambda>e. if cancellable editId userId e then e\<lparr>status := ''cancelled''\<rparr> else e)
                  ` set (seo_edits d)"
    unfolding cancel_edit_edits by (simp only: set_map)
  then obtain y where
    x: "x = (if cancellable editId userId y then y\<lparr>status := ''cancelled''\<rparr> else y)"
    by (rule imageE)
  show "\<not> cancellable editId userId x"
  proof (cases "cancellable editId userId y")
    case True
    then show ?thesis using x by (simp add: cancellable_def)
  next
    case False
    then show ?thesis using x by simp
  qed
qed

lemma db_saved_eq:
  "db_saved = db0\<lparr>seo_edits := [saved_edit 1 ''https://blog.example.com'']\<rparr>"
  by (simp add: db_saved_def create_edit_def select_website_def db0_def connected_site_def
        bare_site_def insert_edit_def text_value_def varchar_def or_empty_def saved_edit_def
        Let_def)

lemma db_saved_bare_eq:
  "db_saved_bare = db0\<lparr>seo_edits := [saved_edit 2 ''https://shop.example.com'']\<rparr>"
  by (simp add: db_saved_bare_def create_edit_def select_website_def db0_def connected_site_def
        bare_site_def insert_edit_def text_value_def varchar_def or_empty_def saved_edit_def
        Let_def)


section \<open>The edit lifecycle\<close>

text \<open>
  C1 (fails on the code). The claim: a record in a terminal state never changes its status
  again, whatever operation follows, \<open>applyEdit\<close> included. The cancel route updates only
  rows whose status is \<open>pending\<close>; the apply route selects the edit by id and user alone
  and its \<open>UPDATE\<close> has no condition on the status. So user 1 saves an edit for the
  connected website, cancels it, and then applies it: the record goes from \<open>pending\<close> to
  \<open>cancelled\<close> and from \<open>cancelled\<close> to \<open>applied\<close>.
\<close>

theorem cancelled_edit_reapplied:
  "map_option status (edit_by_id db_saved 1) = Some ''pending''
   \<and> map_option status (edit_by_id (db_after (cancel_edit 1 1 db_saved)) 1) = Some ''cancelled''
   \<and> map_option status
        (edit_by_id (db_after (apply_edit push_down 30 1 1 (db_after (cancel_edit 1 1 db_saved)))) 1)
       = Some ''applied''"
  by (simp add: db_saved_eq edit_by_id_def cancel_edit_def cancellable_def apply_edit_def
        select_edit_def joined_account_def mark_applied_def apply_request_def push_down_def
        db0_def saved_edit_def connected_site_def bare_site_def wp_account_def Let_def)

text \<open>
  C2 (as stated, false). The claim: applying an edit whose website has no connected account
  attempts a push, and the record ends \<open>applied\<close> with a demo-mode message. The route
  checks for the account first: the saved edit of the website with no account stays
  \<open>pending\<close>, no connector call is made, and the message is an error.
\<close>

theorem unconnected_apply_stays_pending:
  "map_option status (edit_by_id (db_after (apply_edit push_down 30 1 1 db_saved_bare)) 1)
     = Some ''pending''
   \<and> pushes (apply_edit push_down 30 1 1 db_saved_bare) = []
   \<and> response (apply_edit push_down 30 1 1 db_saved_bare)
     = Redirect ''error'' ''No platform connected. Connect a platform first to push changes.''
         (ToSeoEdit 2)"
  by (simp add: db_saved_bare_eq edit_by_id_def apply_edit_def select_edit_def
        joined_account_def db0_def saved_edit_def connected_site_def bare_site_def Let_def)

text \<open>
  C2 (amended). When \<open>applyEdit\<close> is invoked for an edit of the requesting user whose
  website has no connected account, no push is attempted, the tables are left as they
  were (the record stays as it is), and the user is shown the error "No platform connected.
  Connect a platform first to push changes." on the website's edit page.
\<close>

theorem apply_edit_unconnected:
  assumes "select_edit d editId userId = Some (e, w, ca)"
      and "connected_account_id w = None"
  shows "apply_edit push now userId editId d =
           \<lparr>response = Redirect ''error''
                         ''No platform connected. Connect a platform first to push changes.''
                         (ToSeoEdit (e_website_id e)),
            db_after = d, pushes = []\<rparr>"
  using assms by (simp add: apply_edit_def)

theorem apply_edit_unconnected_witness:
  "select_edit db_saved_bare 1 1 = Some (saved_edit 2 ''https://shop.example.com'', bare_site, None)
   \<and> connected_account_id bare_site = None
   \<and> apply_edit push_down 30 1 1 db_saved_bare =
       \<lparr>response = Redirect ''error''
                     ''No platform connected. Connect a platform first to push changes.''
                     (ToSeoEdit 2),
        db_after = db_saved_bare, pushes = []\<rparr>"
proof -
  have s: "select_edit db_saved_bare 1 1
             = Some (saved_edit 2 ''https://shop.example.com'', bare_site, None)"
    by (simp add: db_saved_bare_eq select_edit_def joined_account_def db0_def saved_edit_def
          connected_site_def bare_site_def)
  have c: "connected_account_id bare_site = None"
    by (simp add: bare_site_def)
  have w: "e_website_id (saved_edit 2 ''https://shop.example.com'') = 2"
    by (simp add: saved_edit_def)
  show ?thesis
    using apply_edit_unconnected[OF s c, of push_down 30] s c w by simp
qed

text \<open>
  C3 (as stated, false). The claim: whenever the push made during an apply operation fails
  for a connected website, the edit is nonetheless marked applied. On the route that
  applies an AI suggestion directly, a failed push is only logged: the edit that the
  route has just saved stays \<open>pending\<close> with no \<open>applied_at\<close>, and the answer says the
  suggestion was saved.
\<close>

theorem apply_ai_failed_push_stays_pending:
  "map status (seo_edits (db_after
       (apply_ai push_down 1 20 1 1 ''title'' ''Handmade oak furniture'' db0))) = [''pending'']
   \<and> map applied_at (seo_edits (db_after
       (apply_ai push_down 1 20 1 1 ''title'' ''Handmade oak furniture'' db0))) = [None]
   \<and> length (pushes (apply_ai push_down 1 20 1 1 ''title'' ''Handmade oak furniture'' db0)) = 1
   \<and> response (apply_ai push_down 1 20 1 1 ''title'' ''Handmade oak furniture'' db0)
     = Json True ''AI suggestion saved. Connect a platform to push to your site.''"
  by (simp add: apply_ai_def select_website_def joined_account_def insert_edit_def
        text_value_def varchar_def or_empty_def push_down_def db0_def connected_site_def
        bare_site_def wp_account_def Let_def)

text \<open>
  C3 (amended). Whenever the push made by \<open>applyEdit\<close> (\<open>POST /apply/:editId\<close>) fails for
  an edit of the requesting user whose website has a connected account, exactly one push
  attempt is made, the edit is marked \<open>applied\<close> with \<open>applied_at\<close> set, and the message
  shown is "SEO change marked as applied (Demo mode - actual API integration required for
  <provider>)". Whenever the push made by the apply-AI-suggestion route fails for a
  connected website and a suggestion that the edits table accepts (no zero byte in its
  texts, a type of at most 50 and a website url of at most 500 characters, a new id, a
  user of the users table), exactly one push attempt is made as well, but the edit the
  route has saved stays \<open>pending\<close> with no \<open>applied_at\<close> and the suggestion is reported
  as saved.
\<close>

theorem failed_push_outcome:
  "(select_edit d editId userId = Some (e, w, ca) \<and> connected_account_id w = Some c \<and> c \<noteq> 0
      \<and> push (apply_request e w ca) = FetchError msg
    \<longrightarrow> pushes (apply_edit push now userId editId d) = [apply_request e w ca]
        \<and> response (apply_edit push now userId editId d) =
             Redirect ''success''
               (''SEO change marked as applied (Demo mode - actual API integration required for ''
                  @ template (map_option provider ca) @ '')'')
               (ToSeoEdit (e_website_id e))
        \<and> e\<lparr>status := ''applied'', applied_at := Some now\<rparr>
             \<in> set (seo_edits (db_after (apply_edit push now userId editId d)))
        \<and> (\<forall>x \<in> set (seo_edits (db_after (apply_edit push now userId editId d))).
              e_id x = editId \<longrightarrow> status x = ''applied'' \<and> applied_at x = Some now))
   \<and> (select_website d websiteId userId = Some w' \<and> joined_account d w' = Some a
      \<and> provider a \<noteq> []
      \<and> push (ai_request w' (Some a) suggestionType suggestionContent) = FetchError msg'
      \<and> text_value (w_url w') \<and> text_value suggestionType \<and> text_value suggestionContent
      \<and> length (w_url w') \<le> 500 \<and> length suggestionType \<le> 50
      \<and> newId \<notin> set (map e_id (seo_edits d)) \<and> userId \<in> set (users d)
    \<longrightarrow> pushes (apply_ai push newId now userId websiteId suggestionType suggestionContent d)
          = [ai_request w' (Some a) suggestionType suggestionContent]
        \<and> response (apply_ai push newId now userId websiteId suggestionType suggestionContent d)
          = Json True ''AI suggestion saved. Connect a platform to push to your site.''
        \<and> seo_edits (db_after (apply_ai push newId now userId websiteId suggestionType
                                 suggestionContent d))
          = seo_edits d
            @ [\<lparr>e_id = newId, e_website_id = websiteId, e_user_id = userId,
                page_url = Some (w_url w'), field_type = suggestionType, old_value = [],
                new_value = suggestionContent, status = ''pending'', applied_at = None,
                created_at = now\<rparr>])"
proof (intro conjI impI)
  assume h: "select_edit d editId userId = Some (e, w, ca) \<and> connected_account_id w = Some c
      \<and> c \<noteq> 0 \<and> push (apply_request e w ca) = FetchError msg"
  then have out: "apply_edit push now userId editId d =
      \<lparr>response = Redirect ''success'' (demo_message (map_option provider ca))
                    (ToSeoEdit (e_website_id e)),
       db_after = mark_applied now editId d, pushes = [apply_request e w ca]\<rparr>"
    using apply_edit_failed by blast
  from h have e: "e \<in> set (seo_edits d)" "e_id e = editId"
    using select_edit_SomeD by blast+
  show "pushes (apply_edit push now userId editId d) = [apply_request e w ca]"
    by (simp add: out)
  show "response (apply_edit push now userId editId d) =
             Redirect ''success''
               (''SEO change marked as applied (Demo mode - actual API integration required for ''
                  @ template (map_option provider ca) @ '')'')
               (ToSeoEdit (e_website_id e))"
    by (simp add: out demo_message_def)
  show "e\<lparr>status := ''applied'', applied_at := Some now\<rparr>
             \<in> set (seo_edits (db_after (apply_edit push now userId editId d)))"
    using mark_applied_member[OF e] by (simp add: out)
  show "\<forall>x \<in> set (seo_edits (db_after (apply_edit push now userId editId d))).
              e_id x = editId \<longrightarrow> status x = ''applied'' \<and> applied_at x = Some now"
    using mark_applied_all by (simp add: out)
next
  let ?new = "\<lparr>e_id = newId, e_website_id = websiteId, e_user_id = userId,
                page_url = Some (w_url w'), field_type = suggestionType, old_value = [],
                new_value = suggestionContent, status = ''pending'', applied_at = None,
                created_at = now\<rparr>"
  assume h: "select_website d websiteId userId = Some w' \<and> joined_account d w' = Some a
      \<and> provider a \<noteq> []
      \<and> push (ai_request w' (Some a) suggestionType suggestionContent) = FetchError msg'
      \<and> text_value (w_url w') \<and> text_value suggestionType \<and> text_value suggestionContent
      \<and> length (w_url w') \<le> 500 \<and> length suggestionType \<le> 50
      \<and> newId \<notin> set (map e_id (seo_edits d)) \<and> userId \<in> set (users d)"
  then have "w' \<in> set (websites d) \<and> w_id w' = websiteId"
    using select_website_SomeD by blast
  then have site: "websiteId \<in> set (map w_id (websites d))"
    by auto
  have empty: "text_value []"
    by (simp add: text_value_def)
  have ins: "insert_edit newId now websiteId userId (w_url w') suggestionType []
               suggestionContent d = Inr (?new, d\<lparr>seo_edits := seo_edits d @ [?new]\<rparr>)"
    using h site empty by (intro insert_edit_accepted) simp_all
  have out: "apply_ai push newId now userId websiteId suggestionType suggestionContent d =
     \<lparr>response = Json True ''AI suggestion saved. Connect a platform to push to your site.'',
      db_after = d\<lparr>seo_edits := seo_edits d @ [?new]\<rparr>,
      pushes = [ai_request w' (Some a) suggestionType suggestionContent]\<rparr>"
    using h by (intro apply_ai_failed[OF _ _ _ _ ins]) simp_all
  show "pushes (apply_ai push newId now userId websiteId suggestionType suggestionContent d)
          = [ai_request w' (Some a) suggestionType suggestionContent]"
    by (simp add: out)
  show "response (apply_ai push newId now userId websiteId suggestionType suggestionContent d)
          = Json True ''AI suggestion saved. Connect a platform to push to your site.''"
    by (simp add: out)
  show "seo_edits (db_after (apply_ai push newId now userId websiteId suggestionType
                                 suggestionContent d))
          = seo_edits d @ [?new]"
    by (simp add: out)
qed

theorem failed_push_outcome_witness:
  "select_edit db_saved 1 1
     = Some (saved_edit 1 ''https://blog.example.com'', connected_site, Some wp_account)
   \<and> connected_account_id connected_site = Some 1
   \<and> push_down (apply_request (saved_edit 1 ''https://blog.example.com'') connected_site
                  (Some wp_account))
     = FetchError ''connect ECONNREFUSED 127.0.0.1:5000''
   \<and> length (pushes (apply_edit push_down 30 1 1 db_saved)) = 1
   \<and> response (apply_edit push_down 30 1 1 db_saved) =
       Redirect ''success''
         ''SEO change marked as applied (Demo mode - actual API integration required for wordpress)''
         (ToSeoEdit 1)
   \<and> seo_edits (db_after (apply_edit push_down 30 1 1 db_saved))
     = [(saved_edit 1 ''https://blog.example.com'')\<lparr>status := ''applied'', applied_at := Some 30\<rparr>]
   \<and> select_website db0 1 1 = Some connected_site
   \<and> joined_account db0 connected_site = Some wp_account
   \<and> provider wp_account = ''wordpress''
   \<and> text_value (w_url connected_site) \<and> text_value ''title''
   \<and> text_value ''Handmade oak furniture''
   \<and> length (w_url connected_site) \<le> 500 \<and> length ''title'' \<le> 50
   \<and> 1 \<notin> set (map e_id (seo_edits db0)) \<and> 1 \<in> set (users db0)
   \<and> length (pushes (apply_ai push_down 1 20 1 1 ''title'' ''Handmade oak furniture'' db0)) = 1
   \<and> response (apply_ai push_down 1 20 1 1 ''title'' ''Handmade oak furniture'' db0)
     = Json True ''AI suggestion saved. Connect a platform to push to your site.''
   \<and> map status (seo_edits (db_after
        (apply_ai push_down 1 20 1 1 ''title'' ''Handmade oak furniture'' db0))) = [''pending'']"
proof -
  let ?e = "saved_edit 1 ''https://blog.example.com''"
  have s: "select_edit db_saved 1 1 = Some (?e, connected_site, Some wp_account)"
    by (simp add: db_saved_eq select_edit_def joined_account_def db0_def saved_edit_def
          connected_site_def bare_site_def wp_account_def)
  have c: "connected_account_id connected_site = Some 1" "(1::nat) \<noteq> 0"
    by (simp_all add: connected_site_def)
  have p: "push_down (apply_request ?e connected_site (Some wp_account))
             = FetchError ''connect ECONNREFUSED 127.0.0.1:5000''"
    by (simp add: push_down_def)
  have sw: "select_website db0 1 1 = Some connected_site"
    by (simp add: select_website_def db0_def connected_site_def)
  have ja: "joined_account db0 connected_site = Some wp_account"
    by (simp add: joined_account_def db0_def connected_site_def wp_account_def)
  have pr: "provider wp_account = ''wordpress''" "provider wp_account \<noteq> []"
    by (simp_all add: wp_account_def)
  have pa: "push_down (ai_request connected_site (Some wp_account) ''title''
                         ''Handmade oak furniture'')
              = FetchError ''connect ECONNREFUSED 127.0.0.1:5000''"
    by (simp add: push_down_def)
  have ok: "text_value (w_url connected_site)" "text_value ''title''"
    "text_value ''Handmade oak furniture''" "length (w_url connected_site) \<le> 500"
    "length ''title'' \<le> 50" "1 \<notin> set (map e_id (seo_edits db0))" "1 \<in> set (users db0)"
    by (simp_all add: text_value_def connected_site_def db0_def)
  have ap: "seo_edits (db_after (apply_edit push_down 30 1 1 db_saved))
              = [?e\<lparr>status := ''applied'', applied_at := Some 30\<rparr>]"
    unfolding apply_edit_failed[where push = push_down, OF s c p]
    by (simp add: mark_applied_edits db_saved_eq saved_edit_def)
  have e0: "seo_edits db0 = []" by (simp add: db0_def)
  from failed_push_outcome[where d = db_saved and editId = 1 and userId = 1 and e = "?e"
         and w = connected_site and ca = "Some wp_account" and c = 1 and push = push_down
         and msg = "''connect ECONNREFUSED 127.0.0.1:5000''" and now = 30]
       failed_push_outcome[where d = db0 and websiteId = 1 and userId = 1
         and w' = connected_site and a = wp_account and push = push_down
         and suggestionType = "''title''" and suggestionContent = "''Handmade oak furniture''"
         and msg' = "''connect ECONNREFUSED 127.0.0.1:5000''" and now = 20 and newId = 1]
  show ?thesis
    using s c p sw ja pr pa ap e0 ok by (simp add: template_def saved_edit_def)
qed

text \<open>
  C7. \<open>cancelEdit\<close> takes the requesting user's edit from \<open>pending\<close> to \<open>cancelled\<close>, every
  other row staying as it is; invoked on a record that is not \<open>pending\<close> it changes no
  table and reports "Edit not found or already processed"; so does any second cancel of
  the same id. Ids are the table's primary key.
\<close>

theorem cancel_edit_pending_only:
  assumes "distinct (map e_id (seo_edits d))" and "e \<in> set (seo_edits d)"
      and "e_id e = editId" and "e_user_id e = userId"
  shows "(status e = ''pending'' \<longrightarrow>
            response (cancel_edit userId editId d)
              = Redirect ''success'' ''Edit cancelled'' (ToSeoEdit (e_website_id e))
          \<and> seo_edits (db_after (cancel_edit userId editId d))
              = map (\<lambda>x. if x = e then e\<lparr>status := ''cancelled''\<rparr> else x) (seo_edits d))
       \<and> (status e \<noteq> ''pending'' \<longrightarrow>
            cancel_edit userId editId d =
              \<lparr>response = Redirect ''error'' ''Edit not found or already processed'' ToWebsites,
               db_after = d, pushes = []\<rparr>)
       \<and> cancel_edit userId editId (db_after (cancel_edit userId editId d)) =
            \<lparr>response = Redirect ''error'' ''Edit not found or already processed'' ToWebsites,
             db_after = db_after (cancel_edit userId editId d), pushes = []\<rparr>"
proof (intro conjI impI)
  assume p: "status e = ''pending''"
  have c: "cancellable editId userId x = (x = e)" if "x \<in> set (seo_edits d)" for x
  proof
    assume "cancellable editId userId x"
    then have "e_id x = e_id e" using assms(3) by (simp add: cancellable_def)
    then show "x = e" using distinct_id_unique[OF assms(1,2) that] by simp
  next
    assume "x = e"
    then show "cancellable editId userId x" using assms(3,4) p by (simp add: cancellable_def)
  qed
  have f: "filter (cancellable editId userId) (seo_edits d) = filter (\<lambda>x. x = e) (seo_edits d)"
    using c by (rule filter_cong[OF refl])
  have d1: "distinct (seo_edits d)" using assms(1) by (simp add: distinct_map)
  have fe: "filter (cancellable editId userId) (seo_edits d) = [e]"
    using filter_eq_single[OF d1 assms(2)] f by simp
  have m: "map (\<lambda>x. if cancellable editId userId x then x\<lparr>status := ''cancelled''\<rparr> else x)
             (seo_edits d)
         = map (\<lambda>x. if x = e then e\<lparr>status := ''cancelled''\<rparr> else x) (seo_edits d)"
    by (rule map_cong[OF refl]) (simp add: c)
  show "response (cancel_edit userId editId d)
              = Redirect ''success'' ''Edit cancelled'' (ToSeoEdit (e_website_id e))"
    by (simp add: cancel_edit_def Let_def fe)
  show "seo_edits (db_after (cancel_edit userId editId d))
              = map (\<lambda>x. if x = e then e\<lparr>status := ''cancelled''\<rparr> else x) (seo_edits d)"
    unfolding cancel_edit_edits by (rule m)
next
  assume p: "status e \<noteq> ''pending''"
  have "\<forall>x \<in> set (seo_edits d). \<not> cancellable editId userId x"
  proof
    fix x assume x: "x \<in> set (seo_edits d)"
    show "\<not> cancellable editId userId x"
    proof
      assume cx: "cancellable editId userId x"
      then have "e_id x = e_id e" using assms(3) by (simp add: cancellable_def)
      then have "x = e" using distinct_id_unique[OF assms(1,2) x] by simp
      then show False using cx p by (simp add: cancellable_def)
    qed
  qed
  then show "cancel_edit userId editId d =
              \<lparr>response = Redirect ''error'' ''Edit not found or already processed'' ToWebsites,
               db_after = d, pushes = []\<rparr>"
    by (rule cancel_none)
next
  show "cancel_edit userId editId (db_after (cancel_edit userId editId d)) =
            \<lparr>response = Redirect ''error'' ''Edit not found or already processed'' ToWebsites,
             db_after = db_after (cancel_edit userId editId d), pushes = []\<rparr>"
    by (rule cancel_none[OF cancel_after_none])
qed

theorem cancel_edit_pending_only_witness:
  "distinct (map e_id (seo_edits db_saved))
   \<and> saved_edit 1 ''https://blog.example.com'' \<in> set (seo_edits db_saved)
   \<and> status (saved_edit 1 ''https://blog.example.com'') = ''pending''
   \<and> response (cancel_edit 1 1 db_saved) = Redirect ''success'' ''Edit cancelled'' (ToSeoEdit 1)
   \<and> seo_edits (db_after (cancel_edit 1 1 db_saved))
     = [(saved_edit 1 ''https://blog.example.com'')\<lparr>status := ''cancelled''\<rparr>]
   \<and> cancel_edit 1 1 (db_after (cancel_edit 1 1 db_saved)) =
       \<lparr>response = Redirect ''error'' ''Edit not found or already processed'' ToWebsites,
        db_after = db_after (cancel_edit 1 1 db_saved), pushes = []\<rparr>
   \<and> status ((saved_edit 1 ''https://blog.example.com'')\<lparr>status := ''applied''\<rparr>) \<noteq> ''pending''
   \<and> cancel_edit 1 1
        (db_saved\<lparr>seo_edits := [(saved_edit 1 ''https://blog.example.com'')\<lparr>status := ''applied''\<rparr>]\<rparr>)
     = \<lparr>response = Redirect ''error'' ''Edit not found or already processed'' ToWebsites,
        db_after =
          db_saved\<lparr>seo_edits := [(saved_edit 1 ''https://blog.example.com'')\<lparr>status := ''applied''\<rparr>]\<rparr>,
        pushes = []\<rparr>"
proof -
  let ?e = "saved_edit 1 ''https://blog.example.com''"
  let ?a = "?e\<lparr>status := ''applied''\<rparr>"
  let ?d = "db_saved\<lparr>seo_edits := [?a]\<rparr>"
  have ed: "seo_edits db_saved = [?e]"
    by (simp add: db_saved_eq)
  have h: "distinct (map e_id (seo_edits db_saved))" "?e \<in> set (seo_edits db_saved)"
    "e_id ?e = 1" "e_user_id ?e = 1"
    by (simp_all add: ed) (simp_all add: saved_edit_def)
  have p: "status ?e = ''pending''" "e_website_id ?e = 1"
    by (simp_all add: saved_edit_def)
  have h2: "distinct (map e_id (seo_edits ?d))" "?a \<in> set (seo_edits ?d)"
    "e_id ?a = 1" "e_user_id ?a = 1"
    by (simp_all add: saved_edit_def)
  have p2: "status ?a \<noteq> ''pending''"
    by simp
  from cancel_edit_pending_only[OF h] cancel_edit_pending_only[OF h2]
  show ?thesis
    using h p p2 by (simp add: ed)
qed


section \<open>Fetch failures and the quick score\<close>

text \<open>
  C8 (as stated, false). The claim: when the page fetch fails, the caller is told "could not
  fetch URL". On the analysis route, with the backend down and the fetch timing out, the
  caller is redirected with the flash message "An error occurred during analysis: "
  followed by the message of the underlying error.
\<close>

theorem analyze_route_fetch_error_message:
  "analyze_post blank ml_down fetch_down 1 5 1 (Some ''example.com'') None db0
     = (Redirect ''error'' ''An error occurred during analysis: timeout of 15000ms exceeded''
          ToAnalyze, db0)
   \<and> \<not> str_includes ''An error occurred during analysis: timeout of 15000ms exceeded''
         ''ould not fetch URL''"
  by (simp add: analyze_post_def performBasicAnalysis_def ml_down_def fetch_down_def
        or_empty_def startsWith_def Let_def)

text \<open>
  C8 (amended). If fetching the target page fails, the attempt is fatal for that request
  and no score is computed or persisted: the quick-analyze API answers status 400 with
  the error "Could not fetch URL" (it writes to no table); the analysis route, once the
  backend has failed and the fallback's fetch fails, leaves every table as it was and
  redirects to the analysis form with the flash error "An error occurred during
  analysis: <message of the fetch error>".
\<close>

theorem fetch_failure_fatal:
  "(or_empty bodyUrl \<noteq> [] \<and> fetch (normalize_url (or_empty bodyUrl)) = FetchError msg
      \<longrightarrow> api_analyze fetch bodyUrl = ApiError 400 ''Could not fetch URL'')
   \<and> (or_empty bodyUrl \<noteq> [] \<and> ml (normalize_url (or_empty bodyUrl)) = FetchError mlError
        \<and> fetch (normalize_url (or_empty bodyUrl)) = FetchError msg
      \<longrightarrow> analyze_post ws ml fetch newId now userId bodyUrl websiteId d =
            (Redirect ''error'' (''An error occurred during analysis: '' @ msg) ToAnalyze, d))"
proof (intro conjI impI)
  assume "or_empty bodyUrl \<noteq> [] \<and> fetch (normalize_url (or_empty bodyUrl)) = FetchError msg"
  then show "api_analyze fetch bodyUrl = ApiError 400 ''Could not fetch URL''"
    by (simp add: api_analyze_def Let_def)
next
  assume h: "or_empty bodyUrl \<noteq> [] \<and> ml (normalize_url (or_empty bodyUrl)) = FetchError mlError
        \<and> fetch (normalize_url (or_empty bodyUrl)) = FetchError msg"
  then have "performBasicAnalysis ws fetch (normalize_url (or_empty bodyUrl)) = Inl msg"
    by (simp add: performBasicAnalysis_def)
  with h show "analyze_post ws ml fetch newId now userId bodyUrl websiteId d =
            (Redirect ''error'' (''An error occurred during analysis: '' @ msg) ToAnalyze, d)"
    by (simp add: analyze_post_def Let_def)
qed

theorem fetch_failure_fatal_witness:
  "or_empty (Some ''example.com'') \<noteq> []
   \<and> fetch_down (normalize_url (or_empty (Some ''example.com'')))
     = FetchError ''timeout of 15000ms exceeded''
   \<and> ml_down (normalize_url (or_empty (Some ''example.com'')))
     = FetchError ''connect ECONNREFUSED 127.0.0.1:5000''
   \<and> api_analyze fetch_down (Some ''example.com'') = ApiError 400 ''Could not fetch URL''
   \<and> snd (analyze_post blank ml_down fetch_down 1 5 1 (Some ''example.com'') (Some 1) db0) = db0
   \<and> fst (analyze_post blank ml_down fetch_down 1 5 1 (Some ''example.com'') (Some 1) db0)
     = Redirect ''error'' ''An error occurred during analysis: timeout of 15000ms exceeded''
         ToAnalyze"
proof -
  have u: "or_empty (Some ''example.com'') \<noteq> []"
    by (simp add: or_empty_def)
  have f: "fetch_down (normalize_url (or_empty (Some ''example.com'')))
             = FetchError ''timeout of 15000ms exceeded''"
    by (simp add: fetch_down_def)
  have m: "ml_down (normalize_url (or_empty (Some ''example.com'')))
             = FetchError ''connect ECONNREFUSED 127.0.0.1:5000''"
    by (simp add: ml_down_def)
  from fetch_failure_fatal[where bodyUrl = "Some ''example.com''" and fetch = fetch_down
         and msg = "''timeout of 15000ms exceeded''" and ml = ml_down
         and mlError = "''connect ECONNREFUSED 127.0.0.1:5000''" and ws = blank and now = 5
         and newId = 1 and userId = 1 and websiteId = "Some 1" and d = db0]
  show ?thesis
    using u f m by simp
qed

text \<open>
  C10. For every page that the quick-analyze API fetches, the score the handler returns
  lies between 50 and 100: it is the base of 50 plus the bonuses that apply, capped at
  100. Every answer that carries a score has it in that range, and a fetch that resolves
  with a document \<open>cheerio\<close> loads is answered with such a score. (A resolved fetch whose
  data \<open>cheerio\<close> rejects is answered with status 500 and no score.)
\<close>

theorem api_score_range:
  "(api_analyze fetch bodyUrl = ApiResult r \<longrightarrow> 50 \<le> q_score r \<and> q_score r \<le> 100)
   \<and> (or_empty bodyUrl \<noteq> []
        \<and> fetch (normalize_url (or_empty bodyUrl)) = Fetched (Document p, elapsed)
      \<longrightarrow> api_analyze fetch bodyUrl =
            ApiResult
              \<lparr>q_url = normalize_url (or_empty bodyUrl),
               q_score = Math_min (quick_score (title_text p) (or_empty (description_content p))
                                     (length (h1_texts p)) (of_nat elapsed / 1000)) 100,
               q_title = title_text p, q_metaDescription = or_empty (description_content p),
               q_h1Count = length (h1_texts p), q_loadTime = of_nat elapsed / 1000\<rparr>
          \<and> 50 \<le> quick_score (title_text p) (or_empty (description_content p))
                     (length (h1_texts p)) (of_nat elapsed / 1000))"
proof (intro conjI impI)
  have bounds: "50 \<le> Math_min (quick_score t m h l) 100 \<and> Math_min (quick_score t m h l) 100 \<le> 100"
    for t m h l
    by (simp add: Math_min_def quick_score_def Let_def)
  assume res: "api_analyze fetch bodyUrl = ApiResult r"
  then have url: "or_empty bodyUrl \<noteq> []"
    by (auto simp: api_analyze_def)
  from res url have "\<exists>t m h l. q_score r = Math_min (quick_score t m h l) 100"
  proof (cases "fetch (normalize_url (or_empty bodyUrl))")
    case (FetchError msg)
    with res url show ?thesis by (simp add: api_analyze_def Let_def)
  next
    case (Fetched pair)
    obtain doc el where pair: "pair = (doc, el)" by (cases pair)
    show ?thesis
    proof (cases doc)
      case (Unloadable msg)
      with res url Fetched pair show ?thesis by (simp add: api_analyze_def Let_def)
    next
      case (Document p')
      with res url Fetched pair have
        "\<lparr>q_url = normalize_url (or_empty bodyUrl),
          q_score = Math_min (quick_score (title_text p') (or_empty (description_content p'))
                                (length (h1_texts p')) (of_nat el / 1000)) 100,
          q_title = title_text p', q_metaDescription = or_empty (description_content p'),
          q_h1Count = length (h1_texts p'), q_loadTime = of_nat el / 1000\<rparr> = r"
        by (simp add: api_analyze_def Let_def)
      then have "q_score r = Math_min (quick_score (title_text p')
                   (or_empty (description_content p')) (length (h1_texts p'))
                   (of_nat el / 1000)) 100"
        by auto
      then show ?thesis by blast
    qed
  qed
  with bounds show "50 \<le> q_score r" "q_score r \<le> 100"
    by auto
next
  assume h: "or_empty bodyUrl \<noteq> []
        \<and> fetch (normalize_url (or_empty bodyUrl)) = Fetched (Document p, elapsed)"
  then show "api_analyze fetch bodyUrl =
            ApiResult
              \<lparr>q_url = normalize_url (or_empty bodyUrl),
               q_score = Math_min (quick_score (title_text p) (or_empty (description_content p))
                                     (length (h1_texts p)) (of_nat elapsed / 1000)) 100,
               q_title = title_text p, q_metaDescription = or_empty (description_content p),
               q_h1Count = length (h1_texts p), q_loadTime = of_nat elapsed / 1000\<rparr>"
    by (simp add: api_analyze_def Let_def)
  show "50 \<le> quick_score (title_text p) (or_empty (description_content p))
                     (length (h1_texts p)) (of_nat elapsed / 1000)"
    by (simp add: quick_score_def Let_def)
qed

theorem api_score_range_witness:
  "or_empty (Some ''example.com'') \<noteq> []
   \<and> fetch_good (normalize_url (or_empty (Some ''example.com'')))
     = Fetched (Document good_page, 1200)
   \<and> api_analyze fetch_good (Some ''example.com'') =
       ApiResult
         \<lparr>q_url = ''https://example.com'', q_score = 100,
          q_title = ''Handmade oak furniture built to order in Yorkshire'',
          q_metaDescription = or_empty (description_content good_page), q_h1Count = 1,
          q_loadTime = 6 / 5\<rparr>
   \<and> 50 \<le> q_score
         \<lparr>q_url = ''https://example.com'', q_score = 100,
          q_title = ''Handmade oak furniture built to order in Yorkshire'',
          q_metaDescription = or_empty (description_content good_page), q_h1Count = 1,
          q_loadTime = 6 / 5\<rparr>
   \<and> api_analyze fetch_null (Some ''example.com'') = ApiError 500 ''Analysis failed''"
proof -
  let ?r = "\<lparr>q_url = ''https://example.com'', q_score = 100,
          q_title = ''Handmade oak furniture built to order in Yorkshire'',
          q_metaDescription = or_empty (description_content good_page), q_h1Count = 1,
          q_loadTime = 6 / 5\<rparr>"
  have u: "or_empty (Some ''example.com'') \<noteq> []"
    by (simp add: or_empty_def)
  have f: "fetch_good (normalize_url (or_empty (Some ''example.com'')))
             = Fetched (Document good_page, 1200)"
    by (simp add: fetch_good_def)
  have g: "quick_score (title_text good_page) (or_empty (description_content good_page))
             (length (h1_texts good_page)) (of_nat 1200 / 1000) = 100"
    by (simp add: quick_score_def good_page_def or_empty_def Let_def)
  have n: "normalize_url (or_empty (Some ''example.com'')) = ''https://example.com''"
    by (simp add: normalize_url_def or_empty_def startsWith_def)
  have t: "title_text good_page = ''Handmade oak furniture built to order in Yorkshire''"
    "length (h1_texts good_page) = 1"
    by (simp_all add: good_page_def)
  have z: "api_analyze fetch_null (Some ''example.com'') = ApiError 500 ''Analysis failed''"
    by (simp add: api_analyze_def fetch_null_def or_empty_def Let_def)
  have ev: "\<lparr>q_url = normalize_url (or_empty (Some ''example.com'')),
              q_score = Math_min (quick_score (title_text good_page)
                          (or_empty (description_content good_page))
                          (length (h1_texts good_page)) (of_nat 1200 / 1000)) 100,
              q_title = title_text good_page,
              q_metaDescription = or_empty (description_content good_page),
              q_h1Count = length (h1_texts good_page), q_loadTime = of_nat 1200 / 1000\<rparr> = ?r"
    unfolding g unfolding n t by (simp add: Math_min_def)
  have res: "api_analyze fetch_good (Some ''example.com'') = ApiResult ?r"
    using api_score_range[where fetch = fetch_good and bodyUrl = "Some ''example.com''"
            and p = good_page and elapsed = 1200] u f
    unfolding ev by blast
  from api_score_range[where fetch = fetch_good and bodyUrl = "Some ''example.com''"
         and r = "?r"] res
  have "50 \<le> q_score ?r"
    by blast
  with u f res z show ?thesis
    by simp
qed


section \<open>Scores, grades, issues and links\<close>

text \<open>
  C4 (as stated, false). The claim: the overall score is the sum of category times weight
  over all six categories, social weighted at 10%. The analyzer sums five categories
  whose weights (15, 15, 25, 25 and 20 percent) already total 100% and gives social no
  weight. For the page that follows the analyzer's rules the overall score is 95; with
  the spec's weights that total 100% with social at 10% (15, 15, 25, 20, 15, 10) the sum
  is 86, and no non-negative weights that total 100% with social at 10% give 95.
\<close>

theorem overall_ignores_social_weight:
  "scores (analyse_page blank ''https://example.com'' good_page 1200)
     = \<lparr>title = 100, meta = 100, content = 100, technical = 80, performance = 100, social = 0\<rparr>
   \<and> overall_score (analyse_page blank ''https://example.com'' good_page 1200) = 95
   \<and> weighted_overall (15 / 100) (15 / 100) (25 / 100) (20 / 100) (15 / 100) (10 / 100)
        (scores (analyse_page blank ''https://example.com'' good_page 1200)) = 86
   \<and> \<not> (\<exists>wt wm wc wk wp.
           0 \<le> wt \<and> 0 \<le> wm \<and> 0 \<le> wc \<and> 0 \<le> wk \<and> 0 \<le> wp
           \<and> wt + wm + wc + wk + wp + 10 / 100 = 1
           \<and> weighted_overall wt wm wc wk wp (10 / 100)
               (scores (analyse_page blank ''https://example.com'' good_page 1200))
             = overall_score (analyse_page blank ''https://example.com'' good_page 1200))"
proof -
  let ?a = "analyse_page blank ''https://example.com'' good_page 1200"
  have sc: "scores ?a
     = \<lparr>title = 100, meta = 100, content = 100, technical = 80, performance = 100, social = 0\<rparr>"
    unfolding scores_analyse_page
    by (simp add: good_page_def or_empty_def titleScore_def metaScore_def contentScore_def
          technicalScore_def performanceScore_def startsWith_def)
  have ov: "overall_score ?a = 95"
    unfolding overall_analyse_page
    by (simp add: good_page_def or_empty_def titleScore_def metaScore_def contentScore_def
          technicalScore_def performanceScore_def startsWith_def overallScore_def
          Math_round_def floor_eq_iff)
  have sp: "weighted_overall (15 / 100) (15 / 100) (25 / 100) (20 / 100) (15 / 100) (10 / 100)
              (scores ?a) = 86"
    by (simp add: sc weighted_overall_def Math_round_def floor_eq_iff)
  have no: "weighted_overall wt wm wc wk wp (10 / 100) (scores ?a) \<noteq> 95"
    if w: "0 \<le> wt" "0 \<le> wm" "0 \<le> wc" "0 \<le> wk" "0 \<le> wp"
      "wt + wm + wc + wk + wp + 10 / 100 = 1" for wt wm wc wk wp
  proof
    assume "weighted_overall wt wm wc wk wp (10 / 100) (scores ?a) = 95"
    then have "\<lfloor>100 * wt + 100 * wm + 100 * wc + 80 * wk + 100 * wp + 1 / 2\<rfloor> = (95::int)"
      by (simp add: sc weighted_overall_def Math_round_def)
    then have "95 \<le> 100 * wt + 100 * wm + 100 * wc + 80 * wk + 100 * wp + 1 / 2"
      by (simp add: floor_eq_iff)
    with w show False by linarith
  qed
  have "\<not> (\<exists>wt wm wc wk wp.
           0 \<le> wt \<and> 0 \<le> wm \<and> 0 \<le> wc \<and> 0 \<le> wk \<and> 0 \<le> wp
           \<and> wt + wm + wc + wk + wp + 10 / 100 = 1
           \<and> weighted_overall wt wm wc wk wp (10 / 100) (scores ?a) = overall_score ?a)"
    unfolding ov using no by blast
  with sc ov sp show ?thesis by blast
qed

text \<open>
  C4 (amended). For every analysis produced by the local fallback analyzer, each of the
  six category scores (title, meta, content, technical, performance, social) lies in
  [0, 100], the social score being 0, and the overall score equals the sum of category
  times weight over the five categories title (15%), meta (15%), content (25%),
  technical (25%) and performance (20%), rounded to the nearest integer; social carries
  no weight, and the overall score lies in [0, 100] too.
\<close>

theorem basic_analysis_scores:
  assumes "performBasicAnalysis ws fetch u = Inr a"
  shows "title (scores a) \<in> {0..100} \<and> meta (scores a) \<in> {0..100}
       \<and> content (scores a) \<in> {0..100} \<and> technical (scores a) \<in> {0..100}
       \<and> performance (scores a) \<in> {0..100} \<and> social (scores a) = 0
       \<and> overall_score a =
           Math_round (of_int (title (scores a)) * (15 / 100)
             + of_int (meta (scores a)) * (15 / 100)
             + of_int (content (scores a)) * (25 / 100)
             + of_int (technical (scores a)) * (25 / 100)
             + of_int (performance (scores a)) * (20 / 100))
       \<and> overall_score a \<in> {0..100}"
proof -
  from assms obtain p el where a: "a = analyse_page ws u p el"
    by (auto simp: performBasicAnalysis_def split: fetched.splits document.splits)
  let ?t = "titleScore (title_text p)"
  let ?m = "metaScore (or_empty (description_content p))"
  let ?c = "contentScore (h1_texts p) (body_word_count p)"
  let ?k = "technicalScore (str_includes (or_empty (viewport_content p)) ''width=device-width'')"
  let ?p = "performanceScore (of_nat el / 1000)"
  have r: "0 \<le> ?t \<and> ?t \<le> 100" "0 \<le> ?m \<and> ?m \<le> 100" "0 \<le> ?c \<and> ?c \<le> 100"
    "0 \<le> ?k \<and> ?k \<le> 100" "0 \<le> ?p \<and> ?p \<le> 100"
    by (rule score_ranges)+
  let ?x = "of_int ?t * (15 / 100) + of_int ?m * (15 / 100) + of_int ?c * (25 / 100)
            + of_int ?k * (25 / 100) + of_int ?p * (20 / 100) :: rat"
  have q: "(0::rat) \<le> of_int ?t \<and> of_int ?t \<le> (100::rat)"
    "(0::rat) \<le> of_int ?m \<and> of_int ?m \<le> (100::rat)"
    "(0::rat) \<le> of_int ?c \<and> of_int ?c \<le> (100::rat)"
    "(0::rat) \<le> of_int ?k \<and> of_int ?k \<le> (100::rat)"
    "(0::rat) \<le> of_int ?p \<and> of_int ?p \<le> (100::rat)"
    using r by simp_all
  have x: "0 \<le> ?x" "?x \<le> 100"
    using q by linarith+
  have lo: "0 \<le> Math_round ?x"
    unfolding Math_round_def using x(1) by (simp add: le_floor_iff)
  have "?x + 1 / 2 < 101" using x(2) by linarith
  then have "Math_round ?x < 101"
    unfolding Math_round_def by (simp add: floor_less_iff)
  then have hi: "Math_round ?x \<le> 100" by simp
  show ?thesis
    unfolding a scores_analyse_page overall_analyse_page
    using r lo hi by (simp add: overallScore_def)
qed

theorem basic_analysis_scores_witness:
  "performBasicAnalysis blank fetch_good ''https://example.com''
     = Inr (analyse_page blank ''https://example.com'' good_page 1200)
   \<and> scores (analyse_page blank ''https://example.com'' good_page 1200)
     = \<lparr>title = 100, meta = 100, content = 100, technical = 80, performance = 100, social = 0\<rparr>
   \<and> overall_score (analyse_page blank ''https://example.com'' good_page 1200) = 95
   \<and> performBasicAnalysis blank fetch_home ''https://example.com''
     = Inr (analyse_page blank ''https://example.com'' home_page 1200)
   \<and> scores (analyse_page blank ''https://example.com'' home_page 1200)
     = \<lparr>title = 60, meta = 0, content = 50, technical = 80, performance = 100, social = 0\<rparr>
   \<and> overall_score (analyse_page blank ''https://example.com'' home_page 1200) = 62"
proof -
  have g: "performBasicAnalysis blank fetch_good ''https://example.com''
             = Inr (analyse_page blank ''https://example.com'' good_page 1200)"
    by (simp add: performBasicAnalysis_def fetch_good_def)
  have h: "performBasicAnalysis blank fetch_home ''https://example.com''
             = Inr (analyse_page blank ''https://example.com'' home_page 1200)"
    by (simp add: performBasicAnalysis_def fetch_home_def)
  have sg: "scores (analyse_page blank ''https://example.com'' good_page 1200)
     = \<lparr>title = 100, meta = 100, content = 100, technical = 80, performance = 100, social = 0\<rparr>"
    unfolding scores_analyse_page
    by (simp add: good_page_def or_empty_def titleScore_def metaScore_def contentScore_def
          technicalScore_def performanceScore_def startsWith_def)
  have sh: "scores (analyse_page blank ''https://example.com'' home_page 1200)
     = \<lparr>title = 60, meta = 0, content = 50, technical = 80, performance = 100, social = 0\<rparr>"
    unfolding scores_analyse_page
    by (simp add: home_page_def or_empty_def titleScore_def metaScore_def contentScore_def
          technicalScore_def performanceScore_def startsWith_def)
  from basic_analysis_scores[OF g] basic_analysis_scores[OF h]
  show ?thesis
    using g h by (simp add: sg sh Math_round_def floor_eq_iff)
qed

text \<open>
  C5 (fails on the code). The claim: everywhere a grade is derived from an overall score
  it is the step function with the thresholds 80, 60 and 40 and the grades A, B, C and
  D. The fallback analyzer computes that function; the route that shows a stored
  analysis stops at \<open>>= 60\<close> and gives C to everything lower, so an analysis stored with
  the overall score 30 is graded D when it is made and C when it is viewed again.
\<close>

theorem view_grade_lacks_D:
  "basic_grade 30 = ''D'' \<and> view_grade 30 = ''C''"
  by (simp add: basic_grade_def view_grade_def)

text \<open>
  C6 (as stated, false). The claim ends: for a page whose title is "Home" with no meta
  description, the critical missing-meta issue is ranked before any warning short-title
  issue. The list is ordered by category first, so the short-title warning (category
  title) stands before the missing-meta critical (category meta).
\<close>

theorem home_meta_after_title:
  "generateBasicIssues ''Home'' [] [''Welcome''] 500 True 1 = [title_too_short, missing_meta]
   \<and> issue_type title_too_short = ''warning'' \<and> issue_type missing_meta = ''critical''
   \<and> \<not> ranked_before missing_meta title_too_short
         (generateBasicIssues ''Home'' [] [''Welcome''] 500 True 1)
   \<and> ranked_before title_too_short missing_meta
         (generateBasicIssues ''Home'' [] [''Welcome''] 500 True 1)"
  by (simp add: push_issue_defs ranked_before_def issue_fields)
     (simp add: title_too_short_def missing_meta_def)

text \<open>
  C6 (amended). The issue list produced by the issue engine is ordered by category in the
  fixed order title, meta, content, technical, performance, then by severity within each
  category (critical before warning before info); in particular, for a page whose title
  is "Home" (length 4) with no meta description, the list starts with the warning
  short-title issue followed by the one critical missing-meta issue, which is thus
  ranked after the short-title warning.
\<close>

theorem generateBasicIssues_order:
  "sorted_wrt issue_before (generateBasicIssues t m h wc mf lt)
   \<and> take 2 (generateBasicIssues ''Home'' [] h wc mf lt) = [title_too_short, missing_meta]
   \<and> filter (\<lambda>i. category i = ''meta'') (generateBasicIssues ''Home'' [] h wc mf lt)
     = [missing_meta]
   \<and> filter (\<lambda>i. category i = ''title'') (generateBasicIssues ''Home'' [] h wc mf lt)
     = [title_too_short]"
proof (intro conjI)
  show "sorted_wrt issue_before (generateBasicIssues t m h wc mf lt)"
    by (simp add: push_issue_defs sorted_wrt_append issue_before_def issue_fields
          category_rank_def severity_rank_def)
  show "take 2 (generateBasicIssues ''Home'' [] h wc mf lt) = [title_too_short, missing_meta]"
    by (simp add: push_issue_defs)
  show "filter (\<lambda>i. category i = ''meta'') (generateBasicIssues ''Home'' [] h wc mf lt)
          = [missing_meta]"
    by (simp add: push_issue_defs issue_fields)
  show "filter (\<lambda>i. category i = ''title'') (generateBasicIssues ''Home'' [] h wc mf lt)
          = [title_too_short]"
    by (simp add: push_issue_defs issue_fields)
qed

theorem generateBasicIssues_order_witness:
  "sorted_wrt issue_before (generateBasicIssues [] [] [] 0 False 5)
   \<and> generateBasicIssues [] [] [] 0 False 5
     = [missing_title, missing_meta, missing_h1, thin_content, not_mobile_friendly,
        slow_load_time]
   \<and> take 2 (generateBasicIssues ''Home'' [] [] 500 True (6 / 5))
     = [title_too_short, missing_meta]"
  using generateBasicIssues_order[of "[]" "[]" "[]" 0 False 5]
        generateBasicIssues_order[of _ _ "[]" 500 True "6 / 5"]
  by (simp add: push_issue_defs)

text \<open>
  C9 (as stated, false). The claim: a link is counted as external if and only if its href
  begins with an absolute scheme. The counter tests for the four characters \<open>http\<close>: an
  href with the scheme \<open>mailto:\<close> is counted as internal, and a relative href whose file
  name starts with \<open>http\<close> is counted as external.
\<close>

theorem mailto_counted_internal:
  "begins_with_absolute_scheme ''mailto:hello@example.com''
   \<and> count_links [''mailto:hello@example.com''] (0, 0) = (1, 0)
   \<and> \<not> begins_with_absolute_scheme ''http-tips.html''
   \<and> count_links [''http-tips.html''] (0, 0) = (0, 1)"
  by (simp add: begins_with_absolute_scheme_def scheme_start_def scheme_char_def
        startsWith_def)

text \<open>
  C9 (amended). For every anchor element with an href attribute, the feature extractor
  counts the link as external if and only if its href begins with the four characters
  \<open>http\<close>, and as internal otherwise.
\<close>

theorem count_links_by_prefix:
  "count_links hrefs (0, 0) =
     (length (filter (\<lambda>h. take 4 h \<noteq> ''http'') hrefs),
      length (filter (\<lambda>h. take 4 h = ''http'') hrefs))
   \<and> internal_links (features (analyse_page ws u p el))
     = length (filter (\<lambda>h. take 4 h \<noteq> ''http'') (a_hrefs p))
   \<and> external_links (features (analyse_page ws u p el))
     = length (filter (\<lambda>h. take 4 h = ''http'') (a_hrefs p))"
proof -
  have loop: "count_links xs (i, e) =
      (i + length (filter (\<lambda>h. take 4 h \<noteq> ''http'') xs),
       e + length (filter (\<lambda>h. take 4 h = ''http'') xs))" for xs i e
  proof (induction xs arbitrary: i e)
    case Nil
    show ?case by simp
  next
    case (Cons href rest)
    show ?case
    proof (cases "take 4 href = ''http''")
      case True
      then have "href \<noteq> []" by auto
      with True show ?thesis by (simp add: Cons.IH startsWith_http)
    next
      case False
      then show ?thesis by (simp add: Cons.IH startsWith_http)
    qed
  qed
  have feats: "internal_links (features (analyse_page ws u p el))
                 = fst (count_links (a_hrefs p) (0, 0))"
    "external_links (features (analyse_page ws u p el)) = snd (count_links (a_hrefs p) (0, 0))"
    by (simp_all add: analyse_page_def Let_def)
  show ?thesis
    unfolding feats by (simp add: loop)
qed

theorem count_links_by_prefix_witness:
  "count_links (a_hrefs good_page) (0, 0) = (2, 1)
   \<and> a_hrefs good_page = [''/tables'', ''https://example.org/oak'', ''mailto:hello@example.com'']
   \<and> internal_links (features (analyse_page blank ''https://example.com'' good_page 1200)) = 2
   \<and> external_links (features (analyse_page blank ''https://example.com'' good_page 1200)) = 1"
  using count_links_by_prefix[of "a_hrefs good_page" blank "''https://example.com''" good_page 1200]
  by (simp add: good_page_def)


end
